theory Spec2Isabelle
  imports Complex_Main
begin

section \<open>Conventions of the embedding\<close>

text \<open>
  The backend is a set of Express handlers over four Mongoose collections. Each handler
  is embedded as a function from its inputs and the database to a response (and the
  database it leaves behind). The conventions are:
  \<^item> a JavaScript number is an IEEE 754 double, modelled by the rational it denotes;
    \<open>+\<close>, \<open>-\<close>, \<open>*\<close> and \<open>/\<close> round their exact result to the nearest double
    (section Numbers), and a decimal literal is the double nearest to it;
  \<^item> a \<open>Date\<close> is its time value, an \<open>int\<close> of milliseconds since the epoch, and
    \<open>None\<close> is the Invalid Date (time value NaN); the ECMAScript bound of
    \<open>8.64e15\<close> ms on time values is not modelled;
  \<^item> a string is a list of (byte) characters; \<open>trim\<close> and \<open>toUpperCase\<close> act on
    the ASCII range;
  \<^item> a collection is the list of its documents in insertion order,
    \<open>Model.findOne\<close> is \<open>find\<close>, and saving a document that was found by a
    key replaces the first document with that key;
  \<^item> everything the environment supplies (the clock, \<open>uuidv4\<close>, the payment provider,
    the PDF renderer, what \<open>Date.parse\<close> does outside the ISO format) is a parameter.
\<close>

section \<open>Strings\<close>

definition isSpace :: "char \<Rightarrow> bool" where
  "isSpace c = (c \<in> set [CHR '' '', CHR 0x09, CHR 0x0A, CHR 0x0B, CHR 0x0C, CHR 0x0D])"

text \<open>\<open>String.prototype.trim\<close>.\<close>

definition trim :: "string \<Rightarrow> string" where
  "trim s = rev (dropWhile isSpace (rev (dropWhile isSpace s)))"

definition toUpperChar :: "char \<Rightarrow> char" where
  "toUpperChar c =
     (case map_of (zip ''abcdefghijklmnopqrstuvwxyz'' ''ABCDEFGHIJKLMNOPQRSTUVWXYZ'') c of
        Some u \<Rightarrow> u
      | None \<Rightarrow> c)"

text \<open>\<open>String.prototype.toUpperCase\<close> and \<open>toLowerCase\<close>.\<close>

definition toUpperCase :: "string \<Rightarrow> string" where
  "toUpperCase s = map toUpperChar s"

definition toLowerChar :: "char \<Rightarrow> char" where
  "toLowerChar c =
     (case map_of (zip ''ABCDEFGHIJKLMNOPQRSTUVWXYZ'' ''abcdefghijklmnopqrstuvwxyz'') c of
        Some l \<Rightarrow> l
      | None \<Rightarrow> c)"

definition toLowerCase :: "string \<Rightarrow> string" where
  "toLowerCase s = map toLowerChar s"

definition isDigit :: "char \<Rightarrow> bool" where
  "isDigit c = (c \<in> set ''0123456789'')"

definition digitVal :: "char \<Rightarrow> int" where
  "digitVal c =
     (case map_of (zip ''0123456789'' [0, 1, 2, 3, 4, 5, 6, 7, 8, 9]) c of
        Some v \<Rightarrow> v
      | None \<Rightarrow> 0)"

definition digitsVal :: "string \<Rightarrow> int" where
  "digitsVal ds = foldl (\<lambda>n c. 10 * n + digitVal c) 0 ds"

definition digitChar :: "int \<Rightarrow> char" where
  "digitChar n = ''0123456789'' ! nat (n mod 10)"

text \<open>A non-negative number printed in decimal with exactly \<open>w\<close> digits.\<close>

fun padDigits :: "nat \<Rightarrow> int \<Rightarrow> string" where
  "padDigits 0 n = []"
| "padDigits (Suc w) n = padDigits w (n div 10) @ [digitChar n]"

text \<open>\<open>Array.prototype.join\<close> on strings.\<close>

fun join :: "string \<Rightarrow> string list \<Rightarrow> string" where
  "join sep [] = []"
| "join sep [x] = x"
| "join sep (x # y # ys) = x @ sep @ join sep (y # ys)"

section \<open>Numbers\<close>

text \<open>
  The doubles in the normal range: a sign, a significand of 53 bits and a power of two.
  NaN, the infinities, the negative zero, overflow and the subnormal numbers are not
  modelled; the amounts of this program are far from them.
\<close>

text \<open>The number of binary digits of a positive integer.\<close>

function bitLength :: "int \<Rightarrow> nat" where
  "bitLength n = (if n \<le> 0 then 0 else Suc (bitLength (n div 2)))"
  by pat_completeness auto
termination
  by (relation "measure nat") auto

declare bitLength.simps [simp del]

definition pow2 :: "int \<Rightarrow> rat" where
  "pow2 e = (if 0 \<le> e then 2 ^ nat e else 1 / 2 ^ nat (- e))"

text \<open>The exponent of a positive number \<open>x\<close>: the \<open>e\<close> with \<open>2^e \<le> x < 2^(e+1)\<close>.\<close>

definition exponentOf :: "rat \<Rightarrow> int" where
  "exponentOf x =
     (if 1 \<le> x then int (bitLength \<lfloor>x\<rfloor>) - 1
      else let k = int (bitLength \<lfloor>1 / x\<rfloor>) - 1
           in if x = pow2 (- k) then - k else - k - 1)"

text \<open>The nearest integer, a tie going to the even one.\<close>

definition roundHalfEven :: "rat \<Rightarrow> int" where
  "roundHalfEven q =
     (let f = \<lfloor>q\<rfloor>; r = q - of_int f
      in if r < 1 / 2 then f
         else if r > 1 / 2 then f + 1
         else if even f then f else f + 1)"

text \<open>
  The double nearest to a rational (round to nearest, ties to even): the multiple of
  the unit in the last place of \<open>x\<close>, \<open>2^(e - 52)\<close>, that is nearest to \<open>x\<close>.
\<close>

definition binary64 :: "rat \<Rightarrow> rat" where
  "binary64 x =
     (if x = 0 then 0
      else let u = pow2 (exponentOf \<bar>x\<bar> - 52)
           in of_int (roundHalfEven (x / u)) * u)"

text \<open>The operators \<open>+\<close>, \<open>-\<close>, \<open>*\<close> and \<open>/\<close> on numbers.\<close>

definition jsAdd :: "rat \<Rightarrow> rat \<Rightarrow> rat" where
  "jsAdd a b = binary64 (a + b)"

definition jsSub :: "rat \<Rightarrow> rat \<Rightarrow> rat" where
  "jsSub a b = binary64 (a - b)"

definition jsMul :: "rat \<Rightarrow> rat \<Rightarrow> rat" where
  "jsMul a b = binary64 (a * b)"

definition jsDiv :: "rat \<Rightarrow> rat \<Rightarrow> rat" where
  "jsDiv a b = binary64 (a / b)"

text \<open>
  \<open>Math.round\<close>: the nearest integer, a tie going up. It is exact: the integer is a
  double. \<open>Math.max\<close>, \<open>Math.min\<close>, \<open>Math.abs\<close> and the comparisons are exact too.
\<close>

definition Math_round :: "rat \<Rightarrow> rat" where
  "Math_round x = of_int \<lfloor>x + 1 / 2\<rfloor>"

section \<open>Dates\<close>

definition msPerDay :: int where
  "msPerDay = 86400000"

definition msPerHour :: int where
  "msPerHour = 3600000"

text \<open>\<open>Date.prototype.getUTCHours\<close> and \<open>getUTCDay\<close> (0 is Sunday; the epoch was a Thursday).\<close>

definition getUTCHours :: "int \<Rightarrow> int" where
  "getUTCHours t = (t div msPerHour) mod 24"

definition getUTCDay :: "int \<Rightarrow> int" where
  "getUTCDay t = (t div msPerDay + 4) mod 7"

text \<open>
  \<open>date.setUTCDate(date.getUTCDate() + 1)\<close>: the day of the month is set one past the
  current one. ECMAScript's \<open>MakeDay\<close> counts days from the first of the month, so a day
  past the end of the month is the first of the next one; the time within the day is
  kept. The instant moves forward by one day.
\<close>

definition setUTCDate_next :: "int \<Rightarrow> int" where
  "setUTCDate_next t = (t div msPerDay + 1) * msPerDay + t mod msPerDay"

text \<open>\<open>date.setUTCHours(0, 0, 0, 0)\<close>.\<close>

definition setUTCHours_zero :: "int \<Rightarrow> int" where
  "setUTCHours_zero t = (t div msPerDay) * msPerDay"

subsection \<open>The proleptic Gregorian calendar\<close>

definition isLeapYear :: "int \<Rightarrow> bool" where
  "isLeapYear y = (y mod 4 = 0 \<and> (y mod 100 \<noteq> 0 \<or> y mod 400 = 0))"

definition daysInMonth :: "int \<Rightarrow> int \<Rightarrow> int" where
  "daysInMonth y m =
     (if m = 2 then (if isLeapYear y then 29 else 28)
      else if m \<in> set [4, 6, 9, 11] then 30
      else 31)"

text \<open>The day number (days since 1970-01-01) of a calendar date, months from 1.\<close>

definition daysFromCivil :: "int \<Rightarrow> int \<Rightarrow> int \<Rightarrow> int" where
  "daysFromCivil y m d =
     (let y' = (if m \<le> 2 then y - 1 else y);
          era = y' div 400;
          yoe = y' - era * 400;
          mp = (if m > 2 then m - 3 else m + 9);
          doy = (153 * mp + 2) div 5 + d - 1;
          doe = yoe * 365 + yoe div 4 - yoe div 100 + doy
      in era * 146097 + doe - 719468)"

text \<open>The calendar date (year, month, day) of a day number.\<close>

definition civilFromDays :: "int \<Rightarrow> int \<times> int \<times> int" where
  "civilFromDays z =
     (let z' = z + 719468;
          era = z' div 146097;
          doe = z' - era * 146097;
          yoe = (doe - doe div 1460 + doe div 36524 - doe div 146096) div 365;
          doy = doe - (365 * yoe + yoe div 4 - yoe div 100);
          mp = (5 * doy + 2) div 153;
          d = doy - (153 * mp + 2) div 5 + 1;
          m = (if mp < 10 then mp + 3 else mp - 9);
          y = yoe + era * 400
      in (if m \<le> 2 then y + 1 else y, m, d))"

subsection \<open>Parsing and printing\<close>

text \<open>The regular expression \<open>/^\d{4}-\d{2}-\d{2}$/\<close>.\<close>

definition isBareDate :: "string \<Rightarrow> bool" where
  "isBareDate s =
     (length s = 10 \<and> list_all isDigit (take 4 s) \<and> s ! 4 = CHR ''-'' \<and>
      list_all isDigit (take 2 (drop 5 s)) \<and> s ! 7 = CHR ''-'' \<and>
      list_all isDigit (drop 8 s))"

text \<open>The day number of a string \<open>YYYY-MM-DD\<close> that names a day of the calendar.\<close>

definition parseDatePart :: "string \<Rightarrow> int option" where
  "parseDatePart s =
     (if \<not> isBareDate s then None
      else let y = digitsVal (take 4 s);
               m = digitsVal (take 2 (drop 5 s));
               d = digitsVal (drop 8 s)
           in if 1 \<le> m \<and> m \<le> 12 \<and> 1 \<le> d \<and> d \<le> daysInMonth y m
              then Some (daysFromCivil y m d)
              else None)"

text \<open>
  The milliseconds within the day of a UTC time part: \<open>THH:mmZ\<close>, \<open>THH:mm:ssZ\<close>
  or \<open>THH:mm:ss.sssZ\<close>.
\<close>

definition parseTimePart :: "string \<Rightarrow> int option" where
  "parseTimePart r =
     (if r = [] \<or> hd r \<noteq> CHR ''T'' \<or> last r \<noteq> CHR ''Z'' then None
      else let b = butlast (tl r);
               hh = digitsVal (take 2 b);
               mm = digitsVal (take 2 (drop 3 b));
               ss = (if length b = 5 then 0 else digitsVal (take 2 (drop 6 b)));
               ms = (if length b = 12 then digitsVal (drop 9 b) else 0)
           in if length b \<in> set [5, 8, 12] \<and>
                 list_all isDigit (take 2 b) \<and> b ! 2 = CHR '':'' \<and>
                 list_all isDigit (take 2 (drop 3 b)) \<and>
                 (5 < length b \<longrightarrow> b ! 5 = CHR '':'' \<and> list_all isDigit (take 2 (drop 6 b))) \<and>
                 (8 < length b \<longrightarrow> b ! 8 = CHR ''.'' \<and> list_all isDigit (drop 9 b)) \<and>
                 hh \<le> 23 \<and> mm \<le> 59 \<and> ss \<le> 59
              then Some (hh * msPerHour + mm * 60000 + ss * 1000 + ms)
              else None)"

text \<open>
  The part of the ECMAScript date-time string format whose meaning every engine shares:
  a calendar date alone (midnight UTC of that day) or a calendar date with a time in UTC.
\<close>

definition parseIsoUtc :: "string \<Rightarrow> int option" where
  "parseIsoUtc s =
     (case parseDatePart (take 10 s) of
        None \<Rightarrow> None
      | Some days \<Rightarrow>
          if drop 10 s = [] then Some (days * msPerDay)
          else (case parseTimePart (drop 10 s) of
                  None \<Rightarrow> None
                | Some ms \<Rightarrow> Some (days * msPerDay + ms)))"

text \<open>
  \<open>new Date(s)\<close> for a string. Outside the format above the result depends on the engine
  or on the local time zone; there it is what \<open>other\<close> says (\<open>None\<close> for an Invalid Date).
\<close>

definition Date_parse :: "(string \<Rightarrow> int option) \<Rightarrow> string \<Rightarrow> int option" where
  "Date_parse other s = (case parseIsoUtc s of Some t \<Rightarrow> Some t | None \<Rightarrow> other s)"

text \<open>\<open>date.toISOString().split('T')[0]\<close>: the year has four digits from 0 to 9999, and a sign and six digits otherwise.\<close>

definition isoDatePart :: "int \<Rightarrow> string" where
  "isoDatePart t =
     (case civilFromDays (t div msPerDay) of
        (y, m, d) \<Rightarrow>
          (if 0 \<le> y \<and> y \<le> 9999 then padDigits 4 y
           else (if y < 0 then ''-'' else ''+'') @ padDigits 6 (abs y))
          @ ''-'' @ padDigits 2 m @ ''-'' @ padDigits 2 d)"

section \<open>The date normalizer (bookingController.ts)\<close>

datatype dateInput = DateStr string | DateObj "int option"

datatype dateError = DateValueEmpty | InvalidDateValue

definition normalizeTravelDate :: "(string \<Rightarrow> int option) \<Rightarrow> dateInput \<Rightarrow> dateError + int" where
  "normalizeTravelDate other input =
     (case (case input of
              DateObj d \<Rightarrow> Inr d
            | DateStr s \<Rightarrow>
                (let trimmed = trim s
                 in if trimmed = [] then Inl DateValueEmpty
                    else if isBareDate trimmed
                    then Inr (Date_parse other (trimmed @ ''T00:00:00.000Z''))
                    else Inr (Date_parse other trimmed))) of
        Inl e \<Rightarrow> Inl e
      | Inr None \<Rightarrow> Inl InvalidDateValue
      | Inr (Some t) \<Rightarrow>
          Inr (setUTCHours_zero (if getUTCHours t \<ge> 12 then setUTCDate_next t else t)))"

definition formatDateKey :: "(string \<Rightarrow> int option) \<Rightarrow> dateInput \<Rightarrow> dateError + string" where
  "formatDateKey other input =
     (case normalizeTravelDate other input of
        Inl e \<Rightarrow> Inl e
      | Inr t \<Rightarrow> Inr (isoDatePart t))"

section \<open>The data model (models/index.ts)\<close>

text \<open>
  The field names are the source's; a prefix tells apart the fields that several
  documents share (\<open>r_\<close> route, \<open>b_\<close> booking, \<open>t_\<close> ticket, \<open>p_\<close> promo code).
  An optional field is an \<open>option\<close>, with \<open>None\<close> for \<open>null\<close> and \<open>undefined\<close>.
\<close>

record route =
  r_from :: string
  r_to :: string
  basePrice :: rat
  r_currency :: string
  r_departureTime :: string
  r_arrivalTime :: string
  fromStation :: string
  toStation :: string
  active :: bool
  availableDays :: "int list option"
  r_studentDiscount :: "rat option"
  closedDates :: "string list option"

record passenger =
  name :: string
  surname :: string
  email :: string
  phone :: string

datatype status = Pending | Paid | Cancelled | Refunded

record booking =
  bookingId :: string
  b_from :: string
  b_to :: string
  b_date :: int
  b_departureTime :: string
  b_arrivalTime :: string
  b_passenger :: passenger
  subtotal :: rat
  fees :: rat
  discount :: rat
  studentDiscount :: rat
  total :: rat
  currency :: string
  promoCode :: "string option"
  status :: status
  paymentIntentId :: "string option"
  stripeCustomerId :: "string option"

record ticket =
  ticketId :: string
  t_bookingId :: string
  qrToken :: string
  t_from :: string
  t_to :: string
  t_date :: int
  t_departureTime :: string
  t_arrivalTime :: string
  passengerName :: string
  price :: rat
  t_currency :: string
  isUsed :: bool
  usedAt :: "int option"

record promo =
  code :: string
  discountPercent :: rat
  discountFixed :: rat
  maxDiscount :: rat
  validFrom :: int
  validUntil :: int
  usageLimit :: int
  usageCount :: int
  p_active :: bool

record db =
  routes :: "route list"
  bookings :: "booking list"
  promoCodes :: "promo list"
  tickets :: "ticket list"

text \<open>
  \<open>Model.findOne(filter)\<close> is \<open>find\<close> on the collection. \<open>updateOne\<close> changes the
  first document that matches: it is \<open>findOneAndUpdate\<close>, and it is \<open>doc.save()\<close> for
  a document that \<open>findOne\<close> returned for the same filter.
\<close>

primrec updateOne :: "('a \<Rightarrow> bool) \<Rightarrow> ('a \<Rightarrow> 'a) \<Rightarrow> 'a list \<Rightarrow> 'a list" where
  "updateOne p f [] = []"
| "updateOne p f (x # xs) = (if p x then f x # xs else x # updateOne p f xs)"

text \<open>The queries \<open>findOne\<close> of the handlers, by the filter they pass.\<close>

definition findRoute :: "string \<Rightarrow> string \<Rightarrow> route list \<Rightarrow> route option" where
  "findRoute from' to' rs = find (\<lambda>r. r_from r = from' \<and> r_to r = to' \<and> active r) rs"

definition findBooking :: "string \<Rightarrow> booking list \<Rightarrow> booking option" where
  "findBooking bid bs = find (\<lambda>x. bookingId x = bid) bs"

definition findTicketByBooking :: "string \<Rightarrow> ticket list \<Rightarrow> ticket option" where
  "findTicketByBooking bid ts = find (\<lambda>t. t_bookingId t = bid) ts"

definition findTicketByToken :: "string \<Rightarrow> ticket list \<Rightarrow> ticket option" where
  "findTicketByToken tok ts = find (\<lambda>t. qrToken t = tok) ts"

text \<open>
  The words of the specification, ``rounded to 2 decimal places'', with a tie going up:
  the nearest multiple of 0.01, in exact arithmetic. It is what the results of the source
  are compared with.
\<close>

definition roundTo2 :: "rat \<Rightarrow> rat" where
  "roundTo2 x = of_int \<lfloor>x * 100 + 1 / 2\<rfloor> / 100"

section \<open>Booking creation (bookingController.ts)\<close>

text \<open>
  The request body after the validators of the route \<open>POST /api/bookings\<close> have run.
  \<open>fieldErrors\<close> are the errors express-validator reports for \<open>from\<close>, \<open>to\<close>,
  \<open>date\<close>, the passenger and the promo code; the rule
  \<open>body('studentDiscount').optional().isFloat({ min: 0 })\<close> is written out.
\<close>

record bookingRequest =
  fieldErrors :: "string list"
  req_from :: string
  req_to :: string
  req_date :: string
  req_passenger :: passenger
  req_promoCode :: "string option"
  req_studentDiscount :: "rat option"

definition bookingValidationResult :: "bookingRequest \<Rightarrow> string list" where
  "bookingValidationResult req =
     fieldErrors req @
     (case req_studentDiscount req of
        None \<Rightarrow> []
      | Some v \<Rightarrow> if v < 0 then [''studentDiscount''] else [])"

text \<open>
  What the environment gives one call: the clock (\<open>new Date()\<close>), the value of
  \<open>uuidv4()\<close>, and \<open>Date.parse\<close> outside the ISO format.
\<close>

record bookingEnv =
  now :: int
  uuid :: string
  otherDates :: "string \<Rightarrow> int option"

datatype bookingError =
    ValidationFailed "string list"
  | RouteNotFound
  | RouteNotAvailableOnDate string
  | RouteClosedOnDate string
  | FailedToCreateBooking

definition dayNames :: "string list" where
  "dayNames = [''Sunday'', ''Monday'', ''Tuesday'', ''Wednesday'', ''Thursday'', ''Friday'', ''Saturday'']"

text \<open>\<open>dayNames[day]\<close>, which \<open>join\<close> prints as the empty string when it is undefined.\<close>

definition dayName :: "int \<Rightarrow> string" where
  "dayName day = (if 0 \<le> day \<and> day < 7 then dayNames ! nat day else [])"

text \<open>
  The promo code that the query of \<open>createBooking\<close> finds: the code in upper case,
  active, and inside its validity window.
\<close>

definition findPromo :: "int \<Rightarrow> string \<Rightarrow> promo list \<Rightarrow> promo option" where
  "findPromo t c ps =
     find (\<lambda>p. code p = toUpperCase c \<and> p_active p \<and> validFrom p \<le> t \<and> validUntil p \<ge> t) ps"

text \<open>The pair \<open>(discount, validPromoCode)\<close> after the promo code block.\<close>

definition promoDiscount :: "int \<Rightarrow> rat \<Rightarrow> string option \<Rightarrow> promo list \<Rightarrow> rat \<times> string option" where
  "promoDiscount t subtotal' pc ps =
     (case pc of
        None \<Rightarrow> (0, None)
      | Some c \<Rightarrow>
          if c = [] then (0, None)
          else (case findPromo t c ps of
                  None \<Rightarrow> (0, None)
                | Some p \<Rightarrow>
                    if usageLimit p = 0 \<or> usageCount p < usageLimit p
                    then (if discountPercent p > 0
                          then (let d = jsDiv (Math_round
                                            (jsMul (jsMul subtotal' (jsDiv (discountPercent p) 100)) 100)) 100
                                in if maxDiscount p > 0 then min d (maxDiscount p) else d)
                          else if discountFixed p > 0 then discountFixed p
                          else 0,
                          Some (code p))
                    else (0, None)))"

text \<open>The variable \<open>studentDiscountAmount\<close>.\<close>

definition studentDiscountAmount :: "rat option \<Rightarrow> rat option \<Rightarrow> rat" where
  "studentDiscountAmount requested routeDiscount =
     (case requested of
        None \<Rightarrow> 0
      | Some v \<Rightarrow>
          if v > 0
          then (case routeDiscount of
                  None \<Rightarrow> 0
                | Some rd \<Rightarrow> if rd > 0 then min v rd else 0)
          else 0)"

text \<open>
  The block from \<open>// Calculate pricing\<close> to \<open>new Booking({...})\<close>: the document that
  \<open>createBooking\<close> builds for a route and a travel date. A booking built with
  \<open>studentDiscount: undefined\<close> gets the schema's default 0.
\<close>

definition pricedBooking :: "bookingEnv \<Rightarrow> bookingRequest \<Rightarrow> route \<Rightarrow> int \<Rightarrow> promo list \<Rightarrow> booking" where
  "pricedBooking env req r travelDate ps =
     (let subtotal' = basePrice r;
          fees' = max 3 (jsDiv (Math_round (jsMul (jsMul subtotal' (binary64 (15 / 1000))) 100)) 100);
          (discount', validPromoCode) = promoDiscount (now env) subtotal' (req_promoCode req) ps;
          sda = studentDiscountAmount (req_studentDiscount req) (r_studentDiscount r);
          total' = max 0 (jsSub (jsSub (jsAdd subtotal' fees') discount') sda)
      in \<lparr> bookingId = ''BK-'' @ toUpperCase (take 8 (uuid env)),
           b_from = req_from req,
           b_to = req_to req,
           b_date = travelDate,
           b_departureTime = r_departureTime r,
           b_arrivalTime = r_arrivalTime r,
           b_passenger = req_passenger req,
           subtotal = subtotal',
           fees = fees',
           discount = discount',
           studentDiscount = (if sda > 0 then sda else 0),
           total = total',
           currency = r_currency r,
           promoCode = validPromoCode,
           status = Pending,
           paymentIntentId = None,
           stripeCustomerId = None \<rparr>)"

text \<open>
  The variable \<open>travelDate\<close>: the date of the body goes through \<open>new Date(date)\<close>
  and then through the normalizer, which throws on an Invalid Date.
\<close>

definition requestedTravelDate :: "bookingEnv \<Rightarrow> bookingRequest \<Rightarrow> dateError + int" where
  "requestedTravelDate env req =
     normalizeTravelDate (otherDates env) (DateObj (Date_parse (otherDates env) (req_date req)))"

text \<open>
  \<open>createBooking\<close>. The result is the error response, or the booking that was saved
  and the database with it. An exception inside the \<open>try\<close> block (the date does not
  parse, the unique index on \<open>bookingId\<close> refuses the document) is the response 500.
\<close>

definition createBooking :: "bookingEnv \<Rightarrow> bookingRequest \<Rightarrow> db \<Rightarrow> bookingError + booking \<times> db" where
  "createBooking env req d =
     (if bookingValidationResult req \<noteq> [] then Inl (ValidationFailed (bookingValidationResult req))
      else case findRoute (req_from req) (req_to req) (routes d) of
        None \<Rightarrow> Inl RouteNotFound
      | Some r \<Rightarrow>
         (case requestedTravelDate env req of
            Inl e \<Rightarrow> Inl FailedToCreateBooking
          | Inr travelDate \<Rightarrow>
             (let dayOfWeek = getUTCDay travelDate
              in if (case availableDays r of
                       None \<Rightarrow> False
                     | Some days \<Rightarrow> length days > 0 \<and> dayOfWeek \<notin> set days)
                 then Inl (RouteNotAvailableOnDate (join '', '' (map dayName (the (availableDays r)))))
                 else case formatDateKey (otherDates env) (DateObj (Some travelDate)) of
                   Inl e \<Rightarrow> Inl FailedToCreateBooking
                 | Inr travelDateKey \<Rightarrow>
                    if (case closedDates r of None \<Rightarrow> False | Some cs \<Rightarrow> travelDateKey \<in> set cs)
                    then Inl (RouteClosedOnDate travelDateKey)
                    else
                     (let b = pricedBooking env req r travelDate (promoCodes d)
                      in if \<exists>x \<in> set (bookings d). bookingId x = bookingId b
                         then Inl FailedToCreateBooking
                         else Inr (b, d\<lparr>bookings := bookings d @ [b]\<rparr>)))))"

section \<open>Payments (paymentController.ts)\<close>

subsection \<open>The payment sheet\<close>

text \<open>
  The body of \<open>POST /api/payments/payment-sheet\<close>; the rule
  \<open>body('totalAmount').optional().isFloat({ min: 0 })\<close> is written out, and the field
  \<open>studentDiscount\<close> of the body, which the handler reads and never uses, is left out.
\<close>

record paymentSheetRequest =
  ps_fieldErrors :: "string list"
  ps_bookingId :: string
  totalAmount :: "rat option"

definition paymentSheetValidationResult :: "paymentSheetRequest \<Rightarrow> string list" where
  "paymentSheetValidationResult req =
     ps_fieldErrors req @
     (case totalAmount req of
        None \<Rightarrow> []
      | Some v \<Rightarrow> if v < 0 then [''totalAmount''] else [])"

text \<open>
  What the payment provider answers to the three calls of one request: the id of the new
  customer, the id and the client secret of the new payment intent, the secret of the
  ephemeral key. \<open>None\<close> is a call that throws.
\<close>

record stripeEnv =
  customers_create :: "string option"
  paymentIntents_create :: "(string \<times> string) option"
  ephemeralKeys_create :: "string option"

datatype paymentSheetResponse =
    PS_ValidationFailed "string list"
  | PS_BookingNotFound
  | PS_BookingAlreadyProcessed status
  | PS_InvalidCurrency string
  | PS_Failed
  | PS_Sheet string string string

text \<open>\<open>booking.save()\<close> for a booking that was found by its \<open>bookingId\<close>.\<close>

definition saveBooking :: "booking \<Rightarrow> db \<Rightarrow> db" where
  "saveBooking b d =
     d\<lparr>bookings := updateOne (\<lambda>x. bookingId x = bookingId b) (\<lambda>_. b) (bookings d)\<rparr>"

text \<open>
  \<open>createPaymentSheet\<close>: the response and the database the handler leaves. The steps
  are in the order of the source: the stored total is corrected from \<open>totalAmount\<close>
  first, the status is looked at after that.
\<close>

definition createPaymentSheet :: "stripeEnv \<Rightarrow> paymentSheetRequest \<Rightarrow> db \<Rightarrow> paymentSheetResponse \<times> db" where
  "createPaymentSheet env req d =
     (if paymentSheetValidationResult req \<noteq> []
      then (PS_ValidationFailed (paymentSheetValidationResult req), d)
      else case findBooking (ps_bookingId req) (bookings d) of
        None \<Rightarrow> (PS_BookingNotFound, d)
      | Some b0 \<Rightarrow>
         (let amountToCharge = (case totalAmount req of Some a \<Rightarrow> a | None \<Rightarrow> total b0);
              corrected = (case totalAmount req of
                             Some a \<Rightarrow> abs (jsSub a (total b0)) > binary64 (1 / 100)
                           | None \<Rightarrow> False);
              b1 = (if corrected then b0\<lparr>total := the (totalAmount req)\<rparr> else b0);
              d1 = (if corrected then saveBooking b1 d else d)
          in if status b1 \<noteq> Pending then (PS_BookingAlreadyProcessed (status b1), d1)
             else
              (let currency' = (if toLowerCase (currency b1) = [] then ''ron''
                                else toLowerCase (currency b1))
               in if currency' \<noteq> ''ron'' \<and> currency' \<noteq> ''eur''
                  then (PS_InvalidCurrency (currency b1), d1)
                  else
                   (let existing = (case stripeCustomerId b1 of
                                      None \<Rightarrow> None
                                    | Some c \<Rightarrow> if c = [] then None else Some c)
                    in case (case existing of
                               Some c \<Rightarrow> Some c
                             | None \<Rightarrow> customers_create env) of
                         None \<Rightarrow> (PS_Failed, d1)
                       | Some customerId \<Rightarrow>
                          (let b2 = (if existing = None
                                     then b1\<lparr>stripeCustomerId := Some customerId\<rparr> else b1);
                               d2 = (if existing = None then saveBooking b2 d1 else d1);
                               amountInCents = Math_round (jsMul amountToCharge 100)
                           in case paymentIntents_create env of
                                None \<Rightarrow> (PS_Failed, d2)
                              | Some (intentId, clientSecret) \<Rightarrow>
                                 (case ephemeralKeys_create env of
                                    None \<Rightarrow> (PS_Failed, d2)
                                  | Some keySecret \<Rightarrow>
                                     (PS_Sheet clientSecret keySecret customerId,
                                      saveBooking (b2\<lparr>paymentIntentId := Some intentId\<rparr>) d2)))))))"

subsection \<open>The webhook handlers\<close>

text \<open>The fields of a \<open>Stripe.PaymentIntent\<close> that the handlers read.\<close>

record paymentIntent =
  pi_id :: string
  metadata_bookingId :: "string option"
  amount_received :: "int option"
  amount :: "int option"
  pi_currency :: "string option"

text \<open>
  What the environment gives one delivery: the two values of \<open>uuidv4()\<close> (for the
  ticket id and for the QR token) and whether \<open>generateTicketPDF\<close> returns.
\<close>

record webhookEnv =
  ticketUuid :: string
  qrUuid :: string
  pdfRendered :: bool

datatype webhookError =
    BookingIdMissing
  | BookingNotFound string
  | DuplicateTicketKey
  | PdfFailed

text \<open>
  The block \<open>// Update booking status\<close> of \<open>handlePaymentSuccess\<close>: the booking
  becomes paid, and takes the amount and the currency that the provider reports.
\<close>

definition settleBooking :: "paymentIntent \<Rightarrow> booking \<Rightarrow> booking" where
  "settleBooking intent b0 =
     (let amountReceived = (case amount_received intent of
                              Some a \<Rightarrow> a
                            | None \<Rightarrow> (case amount intent of Some a \<Rightarrow> a | None \<Rightarrow> 0));
          amountReceivedUnit = jsDiv (of_int amountReceived) 100;
          currency' = map_option toUpperCase (pi_currency intent);
          b1 = b0\<lparr>status := Paid, paymentIntentId := Some (pi_id intent)\<rparr>;
          b2 = (if amountReceived > 0 then b1\<lparr>total := amountReceivedUnit\<rparr> else b1)
      in if currency' = Some ''RON'' \<or> currency' = Some ''EUR''
         then b2\<lparr>currency := the currency'\<rparr> else b2)"

text \<open>
  The block \<open>// Increment promo code usage if used\<close>:
  \<open>PromoCode.findOneAndUpdate({ code: booking.promoCode }, { $inc: { usageCount: 1 } })\<close>.
\<close>

definition incrementPromoUsage :: "booking \<Rightarrow> db \<Rightarrow> db" where
  "incrementPromoUsage b d =
     (case promoCode b of
        None \<Rightarrow> d
      | Some c \<Rightarrow>
          if c = [] then d
          else d\<lparr>promoCodes := updateOne (\<lambda>p. code p = c)
                                   (\<lambda>p. p\<lparr>usageCount := usageCount p + 1\<rparr>) (promoCodes d)\<rparr>)"

text \<open>
  The rest of the handler, from \<open>// Check if a ticket already exists (idempotency)\<close>:
  a ticket is created unless the booking has one, then the PDF is rendered. A ticket
  whose \<open>ticketId\<close> or \<open>qrToken\<close> is already in the collection is refused by the
  unique index. The email is sent without waiting for it and its failure is only logged.
\<close>

definition issueTicket :: "webhookEnv \<Rightarrow> booking \<Rightarrow> db \<Rightarrow> webhookError option \<times> db" where
  "issueTicket env b d =
     (case findTicketByBooking (bookingId b) (tickets d) of
        Some existing \<Rightarrow> (if pdfRendered env then None else Some PdfFailed, d)
      | None \<Rightarrow>
         (let t = \<lparr> ticketId = ''TK-'' @ toUpperCase (take 8 (ticketUuid env)),
                    t_bookingId = bookingId b,
                    qrToken = qrUuid env,
                    t_from = b_from b,
                    t_to = b_to b,
                    t_date = b_date b,
                    t_departureTime = b_departureTime b,
                    t_arrivalTime = b_arrivalTime b,
                    passengerName = name (b_passenger b) @ '' '' @ surname (b_passenger b),
                    price = total b,
                    t_currency = currency b,
                    isUsed = False,
                    usedAt = None \<rparr>
          in if \<exists>x \<in> set (tickets d). ticketId x = ticketId t \<or> qrToken x = qrToken t
             then (Some DuplicateTicketKey, d)
             else (if pdfRendered env then None else Some PdfFailed,
                   d\<lparr>tickets := tickets d @ [t]\<rparr>)))"

text \<open>
  \<open>handlePaymentSuccess\<close>: \<open>None\<close> when it returns, the error when it throws, and
  the database it leaves in both cases.
\<close>

definition handlePaymentSuccess :: "webhookEnv \<Rightarrow> paymentIntent \<Rightarrow> db \<Rightarrow> webhookError option \<times> db" where
  "handlePaymentSuccess env intent d =
     (case metadata_bookingId intent of
        None \<Rightarrow> (Some BookingIdMissing, d)
      | Some bid \<Rightarrow>
         if bid = [] then (Some BookingIdMissing, d)
         else (case findBooking bid (bookings d) of
           None \<Rightarrow> (Some (BookingNotFound bid), d)
         | Some b0 \<Rightarrow>
            if status b0 = Paid then (None, d)
            else (let b = settleBooking intent b0
                  in issueTicket env b (incrementPromoUsage b (saveBooking b d)))))"

text \<open>
  \<open>handlePaymentFailed\<close>: \<open>Booking.findOneAndUpdate({ bookingId }, { status: 'cancelled' })\<close>
  has the booking id as its only filter.
\<close>

definition handlePaymentFailed :: "paymentIntent \<Rightarrow> db \<Rightarrow> webhookError option \<times> db" where
  "handlePaymentFailed intent d =
     (case metadata_bookingId intent of
        None \<Rightarrow> (Some BookingIdMissing, d)
      | Some bid \<Rightarrow>
         if bid = [] then (Some BookingIdMissing, d)
         else (case findBooking bid (bookings d) of
           None \<Rightarrow> (Some (BookingNotFound bid), d)
         | Some b0 \<Rightarrow>
            (None, d\<lparr>bookings := updateOne (\<lambda>x. bookingId x = bid)
                                   (\<lambda>x. x\<lparr>status := Cancelled\<rparr>) (bookings d)\<rparr>)))"

section \<open>Tickets (ticketController.ts)\<close>

text \<open>
  The body of \<open>POST /api/tickets/validate\<close> and of \<open>POST /api/tickets/use\<close>, with the
  errors express-validator reports for it.
\<close>

record ticketRequest =
  tk_fieldErrors :: "string list"
  tk_qrToken :: string

datatype validateResponse =
    V_ValidationFailed "string list"
  | V_TicketNotFound
  | V_BookingNotConfirmed
  | V_AlreadyUsed "int option" string
  | V_Expired string
  | V_Valid string

text \<open>
  \<open>validateQRCode\<close>. \<open>today\<close> is \<open>new Date()\<close> after \<open>setHours(0, 0, 0, 0)\<close>:
  the local midnight that began the current day. The responses carry the ticket id of the
  ticket they describe.
\<close>

definition validateQRCode :: "int \<Rightarrow> ticketRequest \<Rightarrow> db \<Rightarrow> validateResponse" where
  "validateQRCode today req d =
     (if tk_fieldErrors req \<noteq> [] then V_ValidationFailed (tk_fieldErrors req)
      else case findTicketByToken (tk_qrToken req) (tickets d) of
        None \<Rightarrow> V_TicketNotFound
      | Some t \<Rightarrow>
         (case findBooking (t_bookingId t) (bookings d) of
            None \<Rightarrow> V_BookingNotConfirmed
          | Some b \<Rightarrow>
             if status b \<noteq> Paid then V_BookingNotConfirmed
             else if isUsed t then V_AlreadyUsed (usedAt t) (ticketId t)
             else if t_date t < today then V_Expired (ticketId t)
             else V_Valid (ticketId t)))"

datatype useResponse =
    U_ValidationFailed "string list"
  | U_TicketNotFound
  | U_TicketAlreadyUsed "int option"
  | U_MarkedAsUsed string "int option"

text \<open>\<open>useTicket\<close>; \<open>now'\<close> is the clock, \<open>new Date()\<close>.\<close>

definition useTicket :: "int \<Rightarrow> ticketRequest \<Rightarrow> db \<Rightarrow> useResponse \<times> db" where
  "useTicket now' req d =
     (if tk_fieldErrors req \<noteq> [] then (U_ValidationFailed (tk_fieldErrors req), d)
      else case findTicketByToken (tk_qrToken req) (tickets d) of
        None \<Rightarrow> (U_TicketNotFound, d)
      | Some t \<Rightarrow>
         if isUsed t then (U_TicketAlreadyUsed (usedAt t), d)
         else (U_MarkedAsUsed (ticketId t) (Some now'),
               d\<lparr>tickets := updateOne (\<lambda>x. qrToken x = tk_qrToken req)
                                (\<lambda>_. t\<lparr>isUsed := True, usedAt := Some now'\<rparr>) (tickets d)\<rparr>))"

section \<open>Observations\<close>

text \<open>The tickets of a booking, and the usage count of the promo code with a given code.\<close>

definition ticketsFor :: "string \<Rightarrow> db \<Rightarrow> ticket list" where
  "ticketsFor bid d = filter (\<lambda>t. t_bookingId t = bid) (tickets d)"

definition promoUsage :: "string \<Rightarrow> db \<Rightarrow> int option" where
  "promoUsage c d = map_option usageCount (find (\<lambda>p. code p = c) (promoCodes d))"

section \<open>Example data\<close>

text \<open>
  A route from Chisinau to Brasov at 125 RON that runs every day, the promo code
  WELCOME10 (10 percent, at most 20), and a request for 25 December 2024 with that code
  and no student discount.
\<close>

definition scenarioRoute :: route where
  "scenarioRoute =
     \<lparr> r_from = ''Chisinau'', r_to = ''Brasov'', basePrice = 125, r_currency = ''RON'',
       r_departureTime = ''08:00'', r_arrivalTime = ''16:00'',
       fromStation = ''Gara de Nord'', toStation = ''Autogara'', active = True,
       availableDays = None, r_studentDiscount = None, closedDates = Some [] \<rparr>"

definition welcome10 :: promo where
  "welcome10 =
     \<lparr> code = ''WELCOME10'', discountPercent = 10, discountFixed = 0, maxDiscount = 20,
       validFrom = 1704067200000, validUntil = 1767139200000,
       usageLimit = 0, usageCount = 0, p_active = True \<rparr>"

definition scenarioPassenger :: passenger where
  "scenarioPassenger =
     \<lparr> name = ''Ana'', surname = ''Rusu'', email = ''ana@example.com'', phone = ''0700000000'' \<rparr>"

definition scenarioDb :: db where
  "scenarioDb = \<lparr> routes = [scenarioRoute], bookings = [], promoCodes = [welcome10], tickets = [] \<rparr>"

definition scenarioRequest :: bookingRequest where
  "scenarioRequest =
     \<lparr> fieldErrors = [], req_from = ''Chisinau'', req_to = ''Brasov'', req_date = ''2024-12-25'',
       req_passenger = scenarioPassenger, req_promoCode = Some ''welcome10'',
       req_studentDiscount = None \<rparr>"

definition scenarioEnv :: bookingEnv where
  "scenarioEnv =
     \<lparr> now = 1734000000000, uuid = ''1b9d6bcd-bbfd-4b2d-9b5d-ab8dfbbd4bed'',
       otherDates = (\<lambda>s. None) \<rparr>"

text \<open>The booking that \<open>createBooking\<close> saves for that request.\<close>

definition scenarioBooking :: booking where
  "scenarioBooking =
     \<lparr> bookingId = ''BK-1B9D6BCD'', b_from = ''Chisinau'', b_to = ''Brasov'',
       b_date = 1735084800000, b_departureTime = ''08:00'', b_arrivalTime = ''16:00'',
       b_passenger = scenarioPassenger, subtotal = 125, fees = 3, discount = 25 / 2,
       studentDiscount = 0, total = 231 / 2, currency = ''RON'',
       promoCode = Some ''WELCOME10'', status = Pending,
       paymentIntentId = None, stripeCustomerId = None \<rparr>"

text \<open>
  A route that runs on Thursdays only, gives students 10 RON off and is closed on
  25 and 26 December 2024 (a Wednesday and a Thursday); requests that ask for a student
  discount of 50; and the first route closed on 25 December 2024.
\<close>

definition thursdayRoute :: route where
  "thursdayRoute =
     \<lparr> r_from = ''Iasi'', r_to = ''Chisinau'', basePrice = 90, r_currency = ''RON'',
       r_departureTime = ''07:00'', r_arrivalTime = ''11:00'',
       fromStation = ''Autogara Iasi'', toStation = ''Gara de Nord'', active = True,
       availableDays = Some [4], r_studentDiscount = Some 10,
       closedDates = Some [''2024-12-26'', ''2024-12-25''] \<rparr>"

definition thursdayDb :: db where
  "thursdayDb = \<lparr> routes = [thursdayRoute], bookings = [], promoCodes = [], tickets = [] \<rparr>"

definition studentRequest :: "string \<Rightarrow> bookingRequest" where
  "studentRequest day =
     \<lparr> fieldErrors = [], req_from = ''Iasi'', req_to = ''Chisinau'', req_date = day,
       req_passenger = scenarioPassenger, req_promoCode = None,
       req_studentDiscount = Some 50 \<rparr>"





definition scenarioStudentRequest :: bookingRequest where
  "scenarioStudentRequest = scenarioRequest\<lparr>req_studentDiscount := Some 50\<rparr>"

definition closedDb :: db where
  "closedDb = scenarioDb\<lparr>routes := [scenarioRoute\<lparr>closedDates := Some [''2024-12-25'']\<rparr>]\<rparr>"

text \<open>
  The payment of that booking: the intent the provider reports as succeeded (or failed),
  the database with the booking pending, and the database after it was paid and its
  ticket issued.
\<close>

definition scenarioIntent :: paymentIntent where
  "scenarioIntent =
     \<lparr> pi_id = ''pi_3Qabc'', metadata_bookingId = Some ''BK-1B9D6BCD'',
       amount_received = Some 11550, amount = Some 11550, pi_currency = Some ''ron'' \<rparr>"

definition scenarioWebhookEnv :: webhookEnv where
  "scenarioWebhookEnv =
     \<lparr> ticketUuid = ''7c9e6679-7425-40de-944b-e07fc1f90ae7'',
       qrUuid = ''f47ac10b-58cc-4372-a567-0e02b2c3d479'', pdfRendered = True \<rparr>"

definition redeliveryEnv :: webhookEnv where
  "redeliveryEnv =
     \<lparr> ticketUuid = ''0b1c2d3e-0000-4000-8000-000000000001'',
       qrUuid = ''0b1c2d3e-0000-4000-8000-000000000002'', pdfRendered = True \<rparr>"

definition pendingDb :: db where
  "pendingDb = scenarioDb\<lparr>bookings := [scenarioBooking]\<rparr>"

definition paidBooking :: booking where
  "paidBooking = scenarioBooking\<lparr>status := Paid, paymentIntentId := Some ''pi_3Qabc''\<rparr>"

definition scenarioTicket :: ticket where
  "scenarioTicket =
     \<lparr> ticketId = ''TK-7C9E6679'', t_bookingId = ''BK-1B9D6BCD'',
       qrToken = ''f47ac10b-58cc-4372-a567-0e02b2c3d479'',
       t_from = ''Chisinau'', t_to = ''Brasov'', t_date = 1735084800000,
       t_departureTime = ''08:00'', t_arrivalTime = ''16:00'', passengerName = ''Ana Rusu'',
       price = 231 / 2, t_currency = ''RON'', isUsed = False, usedAt = None \<rparr>"

definition paidDb :: db where
  "paidDb =
     \<lparr> routes = [scenarioRoute], bookings = [paidBooking],
       promoCodes = [welcome10\<lparr>usageCount := 1\<rparr>], tickets = [scenarioTicket] \<rparr>"

text \<open>A payment sheet request for the paid booking with the amount 50, and what the provider answers.\<close>

definition sheetRequest :: paymentSheetRequest where
  "sheetRequest = \<lparr> ps_fieldErrors = [], ps_bookingId = ''BK-1B9D6BCD'', totalAmount = Some 50 \<rparr>"

definition scenarioStripe :: stripeEnv where
  "scenarioStripe =
     \<lparr> customers_create = Some ''cus_R1'',
       paymentIntents_create = Some (''pi_3Qabc'', ''pi_3Qabc_secret_x''),
       ephemeralKeys_create = Some ''ek_test_1'' \<rparr>"

text \<open>
  The ticket at the gate: the request that presents its QR token, a request with a token
  that no ticket has, and the database in which the booking of the ticket has been
  refunded.
\<close>

definition gateRequest :: ticketRequest where
  "gateRequest = \<lparr> tk_fieldErrors = [], tk_qrToken = ''f47ac10b-58cc-4372-a567-0e02b2c3d479'' \<rparr>"

definition unknownRequest :: ticketRequest where
  "unknownRequest = \<lparr> tk_fieldErrors = [], tk_qrToken = ''00000000-0000-4000-8000-000000000000'' \<rparr>"

definition refundedDb :: db where
  "refundedDb = paidDb\<lparr>bookings := [paidBooking\<lparr>status := Refunded\<rparr>]\<rparr>"

section \<open>Properties\<close>

subsection \<open>Doubles\<close>

lemma bitLength_pos: "0 < n \<Longrightarrow> bitLength n = Suc (bitLength (n div 2))"
  by (subst bitLength.simps) simp

lemma bitLength_bounds:
  "0 < n \<Longrightarrow> 2 ^ (bitLength n - 1) \<le> n \<and> n < 2 ^ bitLength n"
proof (induction n rule: bitLength.induct)
  case (1 n)
  show ?case
  proof (cases "n div 2 \<le> 0")
    case True
    with "1.prems" have "n = 1" by linarith
    moreover have "bitLength 1 = 1" by code_simp
    ultimately show ?thesis by simp
  next
    case False
    then have pos: "0 < n div 2" by simp
    from "1.IH" "1.prems" pos
    have ih: "2 ^ (bitLength (n div 2) - 1) \<le> n div 2" "n div 2 < 2 ^ bitLength (n div 2)"
      by simp_all
    have "bitLength (n div 2) = Suc (bitLength (n div 2 div 2))"
      using pos by (subst bitLength.simps) simp
    then have k: "bitLength (n div 2) = Suc (bitLength (n div 2) - 1)" by simp
    have bl: "bitLength n = Suc (bitLength (n div 2))"
      using "1.prems" by (subst bitLength.simps) simp
    have "2 * 2 ^ (bitLength (n div 2) - 1) \<le> n" using ih(1) by linarith
    moreover have "(2::int) * 2 ^ (bitLength (n div 2) - 1) = 2 ^ bitLength (n div 2)"
      by (subst (2) k) simp
    moreover have "n < 2 * 2 ^ bitLength (n div 2)" using ih(2) by linarith
    ultimately show ?thesis by (simp add: bl)
  qed
qed

lemma pow_le_floor: "(2::int) ^ m \<le> \<lfloor>x\<rfloor> \<Longrightarrow> (2::rat) ^ m \<le> x"
  by (simp add: le_floor_iff)

lemma floor_less_pow: "\<lfloor>x\<rfloor> < (2::int) ^ m \<Longrightarrow> x < (2::rat) ^ m"
  by (simp add: floor_less_iff)

lemma pow2_powi: "pow2 e = 2 powi e"
  by (simp add: pow2_def power_int_def power_one_over inverse_eq_divide)

lemma pow2_pos: "0 < pow2 e"
  by (simp add: pow2_powi)

lemma pow2_Suc: "pow2 (e + 1) = 2 * pow2 e"
  by (simp add: pow2_powi power_int_add)

lemma exponentOf_bounds:
  assumes "0 < x"
  shows "pow2 (exponentOf x) \<le> x \<and> x < pow2 (exponentOf x + 1)"
proof (cases "1 \<le> x")
  case True
  then have n: "0 < \<lfloor>x\<rfloor>" by linarith
  from bitLength_bounds [OF n]
  have b: "2 ^ (bitLength \<lfloor>x\<rfloor> - 1) \<le> \<lfloor>x\<rfloor>" "\<lfloor>x\<rfloor> < 2 ^ bitLength \<lfloor>x\<rfloor>" by simp_all
  have bl: "0 < bitLength \<lfloor>x\<rfloor>" using n by (subst bitLength.simps) simp
  have e: "exponentOf x = int (bitLength \<lfloor>x\<rfloor>) - 1" using True by (simp add: exponentOf_def)
  have p1: "pow2 (exponentOf x) = 2 ^ (bitLength \<lfloor>x\<rfloor> - 1)"
    using bl by (simp add: e pow2_def nat_diff_distrib')
  have p2: "pow2 (exponentOf x + 1) = 2 ^ bitLength \<lfloor>x\<rfloor>"
    by (simp add: e pow2_def)
  have l: "(2::rat) ^ (bitLength \<lfloor>x\<rfloor> - 1) \<le> x" using b(1) by (rule pow_le_floor)
  have u: "x < (2::rat) ^ bitLength \<lfloor>x\<rfloor>" using b(2) by (rule floor_less_pow)
  show ?thesis using l u by (simp add: p1 p2)
next
  case False
  define y where "y = 1 / x"
  have y: "1 < y" using assms False by (simp add: y_def)
  then have n: "0 < \<lfloor>y\<rfloor>" by linarith
  define k where "k = bitLength \<lfloor>y\<rfloor> - 1"
  from bitLength_bounds [OF n]
  have b: "2 ^ k \<le> \<lfloor>y\<rfloor>" "\<lfloor>y\<rfloor> < 2 ^ bitLength \<lfloor>y\<rfloor>" by (simp_all add: k_def)
  have bl: "bitLength \<lfloor>y\<rfloor> = Suc k" using bitLength_pos [OF n] by (simp add: k_def)
  have l: "(2::rat) ^ k \<le> y" using b(1) by (rule pow_le_floor)
  have "\<lfloor>y\<rfloor> < 2 ^ Suc k" using b(2) bl by simp
  then have u: "y < (2::rat) ^ Suc k" by (rule floor_less_pow)
  have xl: "x \<le> 1 / 2 ^ k"
    using l assms by (simp add: y_def field_simps)
  have xu: "1 / 2 ^ Suc k < x"
    using u assms by (simp add: y_def field_simps)
  have pk: "pow2 (- int k) = 1 / 2 ^ k" by (simp add: pow2_def)
  have pk1: "pow2 (- int k - 1) = 1 / 2 ^ Suc k"
    by (simp add: pow2_def nat_add_distrib)
  have e: "exponentOf x = (if x = pow2 (- int k) then - int k else - int k - 1)"
    using False bl by (simp add: exponentOf_def y_def [symmetric] Let_def)
  show ?thesis
  proof (cases "x = pow2 (- int k)")
    case True
    have ex: "exponentOf x = - int k" using e True by simp
    have "pow2 (- int k + 1) = 2 * pow2 (- int k)" by (rule pow2_Suc)
    then have "pow2 (- int k) < pow2 (- int k + 1)"
      using pow2_pos [of "- int k"] by linarith
    then show ?thesis unfolding ex using True by simp
  next
    case False
    have ex: "exponentOf x = - int k - 1" using e False by simp
    have "x < pow2 (- int k)" using False xl pk by simp
    moreover have "pow2 (- int k - 1) < x" using xu pk1 by simp
    ultimately show ?thesis unfolding ex by simp
  qed
qed

lemma roundHalfEven_near: "\<bar>of_int (roundHalfEven q) - q\<bar> \<le> 1 / 2"
proof -
  have "of_int \<lfloor>q\<rfloor> \<le> q" "q < of_int \<lfloor>q\<rfloor> + 1" by linarith+
  then show ?thesis
    unfolding roundHalfEven_def Let_def by (auto simp: abs_le_iff)
qed

text \<open>\<open>binary64\<close> is a rounding: its relative error is at most \<open>2^-53\<close>.\<close>

lemma binary64_error: "\<bar>binary64 x - x\<bar> \<le> \<bar>x\<bar> / 2 ^ 53"
proof (cases "x = 0")
  case True
  then show ?thesis by (simp add: binary64_def)
next
  case False
  define e where "e = exponentOf \<bar>x\<bar>"
  define u where "u = pow2 (e - 52)"
  have upos: "0 < u" by (simp add: u_def pow2_pos)
  have ue: "u * 2 ^ 52 = pow2 e"
    by (simp add: u_def pow2_powi power_int_diff)
  have le: "pow2 e \<le> \<bar>x\<bar>" using exponentOf_bounds [of "\<bar>x\<bar>"] False by (simp add: e_def)
  have b: "binary64 x = of_int (roundHalfEven (x / u)) * u"
    using False by (simp add: binary64_def e_def u_def Let_def)
  have "binary64 x - x = (of_int (roundHalfEven (x / u)) - x / u) * u"
    using upos by (simp add: b field_simps)
  then have "\<bar>binary64 x - x\<bar> = \<bar>of_int (roundHalfEven (x / u)) - x / u\<bar> * u"
    using upos by (simp add: abs_mult)
  also have "\<dots> \<le> (1 / 2) * u"
    using roundHalfEven_near [of "x / u"] upos by (intro mult_right_mono) simp_all
  also have "\<dots> = pow2 e / 2 ^ 53" using ue [symmetric] by simp
  also have "\<dots> \<le> \<bar>x\<bar> / 2 ^ 53" using le by (simp add: divide_right_mono)
  finally show ?thesis .
qed

subsection \<open>The date normalizer\<close>

lemma parseTimePart_midnight: "parseTimePart ''T00:00:00.000Z'' = Some 0"
  by code_simp

lemma getUTCHours_midnight: "getUTCHours (n * msPerDay) = 0"
proof -
  have "n * 86400000 = (n * 24) * (3600000::int)" by simp
  then have "(n * 86400000) div (3600000::int) = n * 24"
    by (metis nonzero_mult_div_cancel_right zero_neq_numeral)
  then show ?thesis by (simp add: getUTCHours_def msPerDay_def msPerHour_def)
qed

lemma setUTCHours_zero_midnight: "setUTCHours_zero (n * msPerDay) = n * msPerDay"
  by (simp add: setUTCHours_zero_def msPerDay_def)

lemma setUTCHours_zero_next: "setUTCHours_zero (setUTCDate_next t) = (t div msPerDay + 1) * msPerDay"
proof -
  have "((t div msPerDay + 1) * msPerDay + t mod msPerDay) div msPerDay = t div msPerDay + 1"
    by (simp add: msPerDay_def)
  then show ?thesis by (simp add: setUTCHours_zero_def setUTCDate_next_def)
qed

lemma normalize_instant:
  "normalizeTravelDate other (DateObj (Some t)) =
     Inr ((if getUTCHours t \<ge> 12 then t div msPerDay + 1 else t div msPerDay) * msPerDay)"
  by (simp add: normalizeTravelDate_def setUTCHours_zero_next) (simp add: setUTCHours_zero_def)

lemma parseIsoUtc_bare_midnight:
  assumes "isBareDate b"
  shows "parseIsoUtc (b @ ''T00:00:00.000Z'') = map_option (\<lambda>n. n * msPerDay) (parseDatePart b)"
proof -
  from assms have len: "length b = 10" by (simp add: isBareDate_def)
  then have "take 10 (b @ ''T00:00:00.000Z'') = b" "drop 10 (b @ ''T00:00:00.000Z'') = ''T00:00:00.000Z''"
    by simp_all
  then show ?thesis
    by (simp add: parseIsoUtc_def parseTimePart_midnight split: option.splits)
qed

lemma normalize_bare:
  assumes "isBareDate (trim s)" "parseDatePart (trim s) = Some n"
  shows "normalizeTravelDate other (DateStr s) = Inr (n * msPerDay)"
proof -
  from assms(1) have ne: "trim s \<noteq> []" by (auto simp: isBareDate_def)
  have "Date_parse other (trim s @ ''T00:00:00.000Z'') = Some (n * msPerDay)"
    using assms by (simp add: Date_parse_def parseIsoUtc_bare_midnight)
  then show ?thesis using ne assms(1)
    by (simp add: normalizeTravelDate_def getUTCHours_midnight setUTCHours_zero_midnight)
qed

lemma normalize_string:
  assumes "trim s \<noteq> []" "\<not> isBareDate (trim s)" "Date_parse other (trim s) = Some t"
  shows "normalizeTravelDate other (DateStr s) =
     Inr ((if getUTCHours t \<ge> 12 then t div msPerDay + 1 else t div msPerDay) * msPerDay)"
  using assms by (simp add: normalizeTravelDate_def setUTCHours_zero_next) (simp add: setUTCHours_zero_def)

lemma normalize_empty: "trim s = [] \<Longrightarrow> normalizeTravelDate other (DateStr s) = Inl DateValueEmpty"
  by (simp add: normalizeTravelDate_def)

lemma normalize_unparsable:
  assumes "trim s \<noteq> []"
    "Date_parse other (if isBareDate (trim s) then trim s @ ''T00:00:00.000Z'' else trim s) = None"
  shows "normalizeTravelDate other (DateStr s) = Inl InvalidDateValue"
  using assms by (simp add: normalizeTravelDate_def split: if_splits)

lemma dateKey_bare_example: "formatDateKey other (DateStr ''2024-12-25'') = Inr ''2024-12-25''"
  by code_simp

lemma dateKey_afternoon_example:
  "formatDateKey other (DateStr ''2024-12-25T14:00:00Z'') = Inr ''2024-12-26''"
  by code_simp

text \<open>
  C7. \<open>normalizeTravelDate\<close> reads a string \<open>YYYY-MM-DD\<close> that names the day number
  \<open>n\<close> as the midnight UTC of that day; for any instant \<open>t\<close>, given as a \<open>Date\<close> or
  as another string that parses, it returns the midnight UTC of the day of \<open>t\<close>, or of
  the next day exactly when the UTC hour of \<open>t\<close> is at least 12; it throws on a string
  that is empty after trimming and on a value that does not parse. The date key of
  \<open>2024-12-25\<close> is \<open>2024-12-25\<close> and that of \<open>2024-12-25T14:00:00Z\<close> is \<open>2024-12-26\<close>.
\<close>

theorem normalizeTravelDate_rule:
  "(isBareDate (trim s) \<and> parseDatePart (trim s) = Some n \<longrightarrow>
      normalizeTravelDate other (DateStr s) = Inr (n * msPerDay)) \<and>
   normalizeTravelDate other (DateObj (Some t)) =
      Inr ((if getUTCHours t \<ge> 12 then t div msPerDay + 1 else t div msPerDay) * msPerDay) \<and>
   (trim s \<noteq> [] \<and> \<not> isBareDate (trim s) \<and> Date_parse other (trim s) = Some t \<longrightarrow>
      normalizeTravelDate other (DateStr s) =
      Inr ((if getUTCHours t \<ge> 12 then t div msPerDay + 1 else t div msPerDay) * msPerDay)) \<and>
   (trim s = [] \<longrightarrow> normalizeTravelDate other (DateStr s) = Inl DateValueEmpty) \<and>
   (trim s \<noteq> [] \<and>
    Date_parse other (if isBareDate (trim s) then trim s @ ''T00:00:00.000Z'' else trim s) = None \<longrightarrow>
      normalizeTravelDate other (DateStr s) = Inl InvalidDateValue) \<and>
   normalizeTravelDate other (DateObj None) = Inl InvalidDateValue \<and>
   formatDateKey other (DateStr ''2024-12-25'') = Inr ''2024-12-25'' \<and>
   formatDateKey other (DateStr ''2024-12-25T14:00:00Z'') = Inr ''2024-12-26''"
proof -
  have "normalizeTravelDate other (DateObj None) = Inl InvalidDateValue"
    by (simp add: normalizeTravelDate_def)
  then show ?thesis
    using normalize_bare [of s n other] normalize_instant [of other t]
      normalize_string [of s other t] normalize_empty [of s other]
      normalize_unparsable [of s other] dateKey_bare_example [of other]
      dateKey_afternoon_example [of other]
    by blast
qed

theorem normalizeTravelDate_rule_witness:
  "normalizeTravelDate (\<lambda>s. None) (DateStr '' 2024-12-25 '') = Inr (20082 * msPerDay) \<and>
   normalizeTravelDate (\<lambda>s. None) (DateStr ''2024-12-25T14:00:00Z'') = Inr (20083 * msPerDay) \<and>
   normalizeTravelDate (\<lambda>s. None) (DateStr ''2024-12-25T11:59:59Z'') = Inr (20082 * msPerDay) \<and>
   normalizeTravelDate (\<lambda>s. None) (DateStr ''   '') = Inl DateValueEmpty \<and>
   normalizeTravelDate (\<lambda>s. None) (DateStr ''2024-13-45'') = Inl InvalidDateValue \<and>
   normalizeTravelDate (\<lambda>s. None) (DateStr ''tomorrow'') = Inl InvalidDateValue"
proof -
  let ?o = "\<lambda>s::string. None :: int option"
  have a1: "isBareDate (trim '' 2024-12-25 '')" by code_simp
  have a2: "parseDatePart (trim '' 2024-12-25 '') = Some 20082" by code_simp
  have w1: "normalizeTravelDate ?o (DateStr '' 2024-12-25 '') = Inr (20082 * msPerDay)"
    using normalizeTravelDate_rule [of "'' 2024-12-25 ''" 20082 ?o 0] a1 a2 by blast
  have b1: "trim ''2024-12-25T14:00:00Z'' \<noteq> []" by code_simp
  have b2: "\<not> isBareDate (trim ''2024-12-25T14:00:00Z'')" by code_simp
  have b3: "Date_parse ?o (trim ''2024-12-25T14:00:00Z'') = Some 1735135200000" by code_simp
  have b4: "(if getUTCHours 1735135200000 \<ge> 12 then 1735135200000 div msPerDay + 1
             else 1735135200000 div msPerDay) = 20083" by code_simp
  have "normalizeTravelDate ?o (DateStr ''2024-12-25T14:00:00Z'') =
      Inr ((if getUTCHours 1735135200000 \<ge> 12 then 1735135200000 div msPerDay + 1
            else 1735135200000 div msPerDay) * msPerDay)"
    using normalizeTravelDate_rule [of "''2024-12-25T14:00:00Z''" 0 ?o 1735135200000] b1 b2 b3
    by blast
  then have w2: "normalizeTravelDate ?o (DateStr ''2024-12-25T14:00:00Z'') = Inr (20083 * msPerDay)"
    by (simp only: b4)
  have c1: "trim ''2024-12-25T11:59:59Z'' \<noteq> []" by code_simp
  have c2: "\<not> isBareDate (trim ''2024-12-25T11:59:59Z'')" by code_simp
  have c3: "Date_parse ?o (trim ''2024-12-25T11:59:59Z'') = Some 1735127999000" by code_simp
  have c4: "(if getUTCHours 1735127999000 \<ge> 12 then 1735127999000 div msPerDay + 1
             else 1735127999000 div msPerDay) = 20082" by code_simp
  have "normalizeTravelDate ?o (DateStr ''2024-12-25T11:59:59Z'') =
      Inr ((if getUTCHours 1735127999000 \<ge> 12 then 1735127999000 div msPerDay + 1
            else 1735127999000 div msPerDay) * msPerDay)"
    using normalizeTravelDate_rule [of "''2024-12-25T11:59:59Z''" 0 ?o 1735127999000] c1 c2 c3
    by blast
  then have w3: "normalizeTravelDate ?o (DateStr ''2024-12-25T11:59:59Z'') = Inr (20082 * msPerDay)"
    by (simp only: c4)
  have d1: "trim ''   '' = []" by code_simp
  have w4: "normalizeTravelDate ?o (DateStr ''   '') = Inl DateValueEmpty"
    using normalizeTravelDate_rule [of "''   ''" 0 ?o 0] d1 by blast
  have e1: "trim ''2024-13-45'' \<noteq> []" by code_simp
  have e2: "Date_parse ?o (if isBareDate (trim ''2024-13-45'')
              then trim ''2024-13-45'' @ ''T00:00:00.000Z'' else trim ''2024-13-45'') = None"
    by code_simp
  have w5: "normalizeTravelDate ?o (DateStr ''2024-13-45'') = Inl InvalidDateValue"
    using normalizeTravelDate_rule [of "''2024-13-45''" 0 ?o 0] e1 e2 by blast
  have f1: "trim ''tomorrow'' \<noteq> []" by code_simp
  have f2: "Date_parse ?o (if isBareDate (trim ''tomorrow'')
              then trim ''tomorrow'' @ ''T00:00:00.000Z'' else trim ''tomorrow'') = None"
    by code_simp
  have w6: "normalizeTravelDate ?o (DateStr ''tomorrow'') = Inl InvalidDateValue"
    using normalizeTravelDate_rule [of "''tomorrow''" 0 ?o 0] f1 f2 by blast
  from w1 w2 w3 w4 w5 w6 show ?thesis by (intro conjI)
qed

subsection \<open>Booking creation\<close>

lemma normalize_is_midnight:
  "normalizeTravelDate other i = Inr td \<Longrightarrow> td = (td div msPerDay) * msPerDay"
  by (auto simp: normalizeTravelDate_def setUTCHours_zero_def msPerDay_def Let_def
      split: dateInput.splits option.splits if_splits sum.splits)

lemma formatDateKey_normalized:
  assumes "normalizeTravelDate other i = Inr td"
  shows "formatDateKey other (DateObj (Some td)) = Inr (isoDatePart td)"
proof -
  obtain k where k: "td = k * msPerDay" using normalize_is_midnight [OF assms] by blast
  have "normalizeTravelDate other (DateObj (Some (k * msPerDay))) = Inr (k * msPerDay)"
    by (simp add: normalizeTravelDate_def getUTCHours_midnight setUTCHours_zero_midnight)
  then show ?thesis by (simp add: formatDateKey_def k)
qed

text \<open>What \<open>createBooking\<close> answers once the request is valid, the route found and the date normalized.\<close>

lemma createBooking_found:
  assumes "bookingValidationResult req = []"
    and "findRoute (req_from req) (req_to req) (routes d) = Some r"
    and "requestedTravelDate env req = Inr td"
  shows "createBooking env req d =
    (if (case availableDays r of None \<Rightarrow> False | Some days \<Rightarrow> length days > 0 \<and> getUTCDay td \<notin> set days)
     then Inl (RouteNotAvailableOnDate (join '', '' (map dayName (the (availableDays r)))))
     else if (case closedDates r of None \<Rightarrow> False | Some cs \<Rightarrow> isoDatePart td \<in> set cs)
     then Inl (RouteClosedOnDate (isoDatePart td))
     else if \<exists>x \<in> set (bookings d). bookingId x = bookingId (pricedBooking env req r td (promoCodes d))
     then Inl FailedToCreateBooking
     else Inr (pricedBooking env req r td (promoCodes d),
               d\<lparr>bookings := bookings d @ [pricedBooking env req r td (promoCodes d)]\<rparr>))"
proof -
  have "formatDateKey (otherDates env) (DateObj (Some td)) = Inr (isoDatePart td)"
    using assms(3) formatDateKey_normalized unfolding requestedTravelDate_def by blast
  then show ?thesis using assms by (simp add: createBooking_def Let_def)
qed

lemma createBooking_InrD:
  assumes "createBooking env req d = Inr (b, d')"
  shows "bookingValidationResult req = [] \<and>
    (\<exists>r td. findRoute (req_from req) (req_to req) (routes d) = Some r \<and>
       requestedTravelDate env req = Inr td \<and>
       b = pricedBooking env req r td (promoCodes d) \<and>
       d' = d\<lparr>bookings := bookings d @ [b]\<rparr> \<and>
       (\<forall>x \<in> set (bookings d). bookingId x \<noteq> bookingId b))"
proof -
  have v: "bookingValidationResult req = []"
    using assms by (auto simp: createBooking_def split: if_splits)
  obtain r where r: "findRoute (req_from req) (req_to req) (routes d) = Some r"
    using assms v by (auto simp: createBooking_def split: option.splits)
  obtain td where td: "requestedTravelDate env req = Inr td"
    using assms v r by (auto simp: createBooking_def Let_def split: sum.splits)
  show ?thesis
    using assms v r td unfolding createBooking_found [OF v r td]
    by (auto split: if_splits)
qed

lemma pricedBooking_fields:
  "subtotal (pricedBooking env req r td ps) = basePrice r"
  "fees (pricedBooking env req r td ps) =
     max 3 (jsDiv (Math_round (jsMul (jsMul (basePrice r) (binary64 (15 / 1000))) 100)) 100)"
  "discount (pricedBooking env req r td ps) = fst (promoDiscount (now env) (basePrice r) (req_promoCode req) ps)"
  "studentDiscount (pricedBooking env req r td ps) =
     studentDiscountAmount (req_studentDiscount req) (r_studentDiscount r)"
  "total (pricedBooking env req r td ps) =
     max 0 (jsSub (jsSub (jsAdd (basePrice r)
                (max 3 (jsDiv (Math_round (jsMul (jsMul (basePrice r) (binary64 (15 / 1000))) 100)) 100)))
              (fst (promoDiscount (now env) (basePrice r) (req_promoCode req) ps)))
            (studentDiscountAmount (req_studentDiscount req) (r_studentDiscount r)))"
  "bookingId (pricedBooking env req r td ps) = ''BK-'' @ toUpperCase (take 8 (uuid env))"
  by (auto simp: pricedBooking_def Let_def studentDiscountAmount_def
      split: prod.splits option.splits)


text \<open>\<open>roundTo2\<close> is rounding to the cent: a multiple of 0.01 at most half a cent away, a tie going up.\<close>

lemma roundTo2_nearest:
  "(\<exists>k::int. roundTo2 x = of_int k / 100) \<and> x - 1 / 200 < roundTo2 x \<and> roundTo2 x \<le> x + 1 / 200"
proof -
  have "of_int \<lfloor>x * 100 + 1 / 2\<rfloor> \<le> x * 100 + 1 / 2"
    and "x * 100 + 1 / 2 < of_int \<lfloor>x * 100 + 1 / 2\<rfloor> + 1"
    by linarith+
  then show ?thesis
    unfolding roundTo2_def by (auto simp: field_simps)
qed


lemma scenario_created:
  "createBooking scenarioEnv scenarioRequest scenarioDb =
     Inr (scenarioBooking, scenarioDb\<lparr>bookings := bookings scenarioDb @ [scenarioBooking]\<rparr>)"
  by code_simp




text \<open>
  C5. When a booking is created for a request that asks for a student discount, the
  discount applied is the smaller of the amount asked for and the route's student
  discount if the route has a positive one (so it never exceeds it), and 0 if the route
  has none.
\<close>

theorem createBooking_studentDiscount:
  assumes "createBooking env req d = Inr (b, d')"
    and "findRoute (req_from req) (req_to req) (routes d) = Some r"
    and "req_studentDiscount req = Some requested"
  shows "(r_studentDiscount r = Some cap \<and> 0 < cap \<longrightarrow>
            studentDiscount b = min requested cap \<and> studentDiscount b \<le> cap) \<and>
         (r_studentDiscount r = None \<or> r_studentDiscount r = Some 0 \<longrightarrow> studentDiscount b = 0)"
proof -
  from createBooking_InrD [OF assms(1)] assms(2) obtain td where
    v: "bookingValidationResult req = []"
    and b: "b = pricedBooking env req r td (promoCodes d)"
    by auto
  from v assms(3) have "0 \<le> requested"
    by (auto simp: bookingValidationResult_def split: if_splits)
  then show ?thesis
    by (auto simp: b pricedBooking_fields assms(3) studentDiscountAmount_def)
qed

lemma thursday_created:
  "createBooking scenarioEnv (studentRequest ''2025-01-02'') thursdayDb =
     Inr (pricedBooking scenarioEnv (studentRequest ''2025-01-02'') thursdayRoute 1735776000000 [],
          thursdayDb\<lparr>bookings := bookings thursdayDb @
            [pricedBooking scenarioEnv (studentRequest ''2025-01-02'') thursdayRoute 1735776000000 []]\<rparr>)"
  by code_simp

lemma scenarioStudent_created:
  "createBooking scenarioEnv scenarioStudentRequest scenarioDb =
     Inr (pricedBooking scenarioEnv scenarioStudentRequest scenarioRoute 1735084800000 [welcome10],
          scenarioDb\<lparr>bookings := bookings scenarioDb @
            [pricedBooking scenarioEnv scenarioStudentRequest scenarioRoute 1735084800000 [welcome10]]\<rparr>)"
  by code_simp

theorem createBooking_studentDiscount_witness:
  "studentDiscount (pricedBooking scenarioEnv (studentRequest ''2025-01-02'') thursdayRoute 1735776000000 [])
     = min 50 10 \<and>
   studentDiscount (pricedBooking scenarioEnv scenarioStudentRequest scenarioRoute 1735084800000 [welcome10])
     = 0"
proof -
  have r1: "findRoute (req_from (studentRequest ''2025-01-02'')) (req_to (studentRequest ''2025-01-02''))
      (routes thursdayDb) = Some thursdayRoute" by code_simp
  have q1: "req_studentDiscount (studentRequest ''2025-01-02'') = Some 50" by code_simp
  have c1: "r_studentDiscount thursdayRoute = Some 10 \<and> (0::rat) < 10" by code_simp
  have r2: "findRoute (req_from scenarioStudentRequest) (req_to scenarioStudentRequest)
      (routes scenarioDb) = Some scenarioRoute" by code_simp
  have q2: "req_studentDiscount scenarioStudentRequest = Some 50" by code_simp
  have c2: "r_studentDiscount scenarioRoute = None" by code_simp
  show ?thesis
    using createBooking_studentDiscount [OF thursday_created r1 q1, of 10]
      createBooking_studentDiscount [OF scenarioStudent_created r2 q2, of 0] c1 c2
    by blast
qed

text \<open>
  C6. For a valid request whose route is found and whose date normalizes to
  \<open>travelDate\<close>: if the route's \<open>availableDays\<close> is absent or empty, the weekday never
  blocks the booking, the answer is \<open>Route closed on selected date\<close> exactly when the
  date key is among the \<open>closedDates\<close>, and otherwise the booking is created (its new
  id being free); if \<open>availableDays\<close> is not empty and does not hold the UTC weekday,
  the answer is \<open>Route not available on selected date\<close> whatever the \<open>closedDates\<close>
  are; and a date on a permitted weekday whose key is among the \<open>closedDates\<close> is
  answered \<open>Route closed on selected date\<close>.
\<close>

theorem createBooking_availability:
  assumes "bookingValidationResult req = []"
    and "findRoute (req_from req) (req_to req) (routes d) = Some r"
    and "requestedTravelDate env req = Inr travelDate"
  shows
   "(availableDays r = None \<or> availableDays r = Some [] \<longrightarrow>
       createBooking env req d \<noteq> Inl (RouteNotAvailableOnDate names) \<and>
       ((createBooking env req d = Inl (RouteClosedOnDate (isoDatePart travelDate))) =
          (case closedDates r of None \<Rightarrow> False | Some cs \<Rightarrow> isoDatePart travelDate \<in> set cs)) \<and>
       (\<not> (case closedDates r of None \<Rightarrow> False | Some cs \<Rightarrow> isoDatePart travelDate \<in> set cs) \<and>
        (\<forall>x \<in> set (bookings d). bookingId x \<noteq> ''BK-'' @ toUpperCase (take 8 (uuid env))) \<longrightarrow>
          createBooking env req d =
            Inr (pricedBooking env req r travelDate (promoCodes d),
                 d\<lparr>bookings := bookings d @ [pricedBooking env req r travelDate (promoCodes d)]\<rparr>))) \<and>
    (availableDays r = Some days \<and> days \<noteq> [] \<and> getUTCDay travelDate \<notin> set days \<longrightarrow>
       createBooking env req d = Inl (RouteNotAvailableOnDate (join '', '' (map dayName days)))) \<and>
    ((availableDays r = None \<or> availableDays r = Some [] \<or>
      (availableDays r = Some days \<and> getUTCDay travelDate \<in> set days)) \<and>
     closedDates r = Some cs \<and> isoDatePart travelDate \<in> set cs \<longrightarrow>
       createBooking env req d = Inl (RouteClosedOnDate (isoDatePart travelDate)))"
  unfolding createBooking_found [OF assms]
  by (auto simp: pricedBooking_fields split: option.splits)

theorem createBooking_availability_witness:
  "createBooking scenarioEnv scenarioRequest scenarioDb =
     Inr (pricedBooking scenarioEnv scenarioRequest scenarioRoute 1735084800000 (promoCodes scenarioDb),
          scenarioDb\<lparr>bookings := bookings scenarioDb @
            [pricedBooking scenarioEnv scenarioRequest scenarioRoute 1735084800000 (promoCodes scenarioDb)]\<rparr>) \<and>
   createBooking scenarioEnv scenarioRequest closedDb =
     Inl (RouteClosedOnDate (isoDatePart 1735084800000)) \<and>
   createBooking scenarioEnv (studentRequest ''2024-12-25'') thursdayDb =
     Inl (RouteNotAvailableOnDate (join '', '' (map dayName [4]))) \<and>
   createBooking scenarioEnv (studentRequest ''2024-12-26'') thursdayDb =
     Inl (RouteClosedOnDate (isoDatePart 1735171200000))"
proof -
  have v1: "bookingValidationResult scenarioRequest = []" by code_simp
  have r1: "findRoute (req_from scenarioRequest) (req_to scenarioRequest) (routes scenarioDb)
      = Some scenarioRoute" by code_simp
  have t1: "requestedTravelDate scenarioEnv scenarioRequest = Inr 1735084800000" by code_simp
  have a1: "availableDays scenarioRoute = None" by code_simp
  have c1: "\<not> (case closedDates scenarioRoute of None \<Rightarrow> False
                | Some cs \<Rightarrow> isoDatePart 1735084800000 \<in> set cs)" by code_simp
  have f1: "\<forall>x \<in> set (bookings scenarioDb).
      bookingId x \<noteq> ''BK-'' @ toUpperCase (take 8 (uuid scenarioEnv))" by code_simp
  have w1: "createBooking scenarioEnv scenarioRequest scenarioDb =
     Inr (pricedBooking scenarioEnv scenarioRequest scenarioRoute 1735084800000 (promoCodes scenarioDb),
          scenarioDb\<lparr>bookings := bookings scenarioDb @
            [pricedBooking scenarioEnv scenarioRequest scenarioRoute 1735084800000 (promoCodes scenarioDb)]\<rparr>)"
    using createBooking_availability [OF v1 r1 t1, of "[]" "[]" "[]"] a1 c1 f1 by blast
  have r2: "findRoute (req_from scenarioRequest) (req_to scenarioRequest) (routes closedDb)
      = Some (scenarioRoute\<lparr>closedDates := Some [''2024-12-25'']\<rparr>)" by code_simp
  have a2: "availableDays (scenarioRoute\<lparr>closedDates := Some [''2024-12-25'']\<rparr>) = None"
    by code_simp
  have c2: "closedDates (scenarioRoute\<lparr>closedDates := Some [''2024-12-25'']\<rparr>)
      = Some [''2024-12-25''] \<and> isoDatePart 1735084800000 \<in> set [''2024-12-25'']" by code_simp
  have w2: "createBooking scenarioEnv scenarioRequest closedDb =
      Inl (RouteClosedOnDate (isoDatePart 1735084800000))"
    using createBooking_availability [OF v1 r2 t1, of "[]" "[]" "[''2024-12-25'']"] a2 c2 by blast
  have v3: "bookingValidationResult (studentRequest ''2024-12-25'') = []" by code_simp
  have r3: "findRoute (req_from (studentRequest ''2024-12-25'')) (req_to (studentRequest ''2024-12-25''))
      (routes thursdayDb) = Some thursdayRoute" by code_simp
  have t3: "requestedTravelDate scenarioEnv (studentRequest ''2024-12-25'') = Inr 1735084800000"
    by code_simp
  have a3: "availableDays thursdayRoute = Some [4] \<and> [4] \<noteq> ([]::int list) \<and>
      getUTCDay 1735084800000 \<notin> set [4]" by code_simp
  have w3: "createBooking scenarioEnv (studentRequest ''2024-12-25'') thursdayDb =
      Inl (RouteNotAvailableOnDate (join '', '' (map dayName [4])))"
    using createBooking_availability [OF v3 r3 t3, of "[]" "[4]" "[]"] a3 by blast
  have v4: "bookingValidationResult (studentRequest ''2024-12-26'') = []" by code_simp
  have r4: "findRoute (req_from (studentRequest ''2024-12-26'')) (req_to (studentRequest ''2024-12-26''))
      (routes thursdayDb) = Some thursdayRoute" by code_simp
  have t4: "requestedTravelDate scenarioEnv (studentRequest ''2024-12-26'') = Inr 1735171200000"
    by code_simp
  have a4: "availableDays thursdayRoute = Some [4] \<and> getUTCDay 1735171200000 \<in> set [4]"
    by code_simp
  have c4: "closedDates thursdayRoute = Some [''2024-12-26'', ''2024-12-25''] \<and>
      isoDatePart 1735171200000 \<in> set [''2024-12-26'', ''2024-12-25'']" by code_simp
  have w4: "createBooking scenarioEnv (studentRequest ''2024-12-26'') thursdayDb =
      Inl (RouteClosedOnDate (isoDatePart 1735171200000))"
    using createBooking_availability [OF v4 r4 t4, of "[]" "[4]" "[''2024-12-26'', ''2024-12-25'']"]
      a4 c4 by blast
  from w1 w2 w3 w4 show ?thesis by (intro conjI)
qed

lemma promoDiscount_percent_capped:
  assumes "c \<noteq> []" and "findPromo t c ps = Some p"
    and "usageLimit p = 0 \<or> usageCount p < usageLimit p"
    and "discountPercent p > 0" and "maxDiscount p > 0"
  shows "promoDiscount t s (Some c) ps =
     (min (jsDiv (Math_round (jsMul (jsMul s (jsDiv (discountPercent p) 100)) 100)) 100) (maxDiscount p),
      Some (code p))"
  using assms by (simp add: promoDiscount_def Let_def)

text \<open>
  C8 as amended. For a route with base price 125, the promo code WELCOME10 (10 percent,
  at most 20) and no student discount, 125 times 0.015 rounds to 1.88, the fee is the
  larger of 3 and 1.88, which is 3, the promo discount is 12.5 and the total is
  125 + 3 - 12.5 = 115.5.
\<close>

theorem createBooking_welcome10:
  assumes "createBooking env req d = Inr (b, d')"
    and "findRoute (req_from req) (req_to req) (routes d) = Some r"
    and "basePrice r = 125"
    and "req_promoCode req = Some c" and "c \<noteq> []"
    and "findPromo (now env) c (promoCodes d) = Some p"
    and "usageLimit p = 0 \<or> usageCount p < usageLimit p"
    and "discountPercent p = 10" and "maxDiscount p = 20"
    and "req_studentDiscount req = None"
  shows "roundTo2 (125 * (15 / 1000)) = 188 / 100 \<and> fees b = 3 \<and> discount b = 25 / 2 \<and>
         studentDiscount b = 0 \<and> total b = 231 / 2"
proof -
  from createBooking_InrD [OF assms(1)] assms(2) obtain td where
    b: "b = pricedBooking env req r td (promoCodes d)"
    by auto
  have rd: "roundTo2 (125 * (15 / 1000)) = 188 / 100" by code_simp
  have fe: "max 3 (jsDiv (Math_round (jsMul (jsMul 125 (binary64 (15 / 1000))) 100)) 100) = (3::rat)"
    by code_simp
  have dv: "min (jsDiv (Math_round (jsMul (jsMul 125 (jsDiv 10 100)) 100)) 100) 20 = (25 / 2 :: rat)"
    by code_simp
  have su: "max 0 (jsSub (jsSub (jsAdd 125 3) (25 / 2)) 0) = (231 / 2 :: rat)" by code_simp
  have "promoDiscount (now env) 125 (Some c) (promoCodes d) =
      (min (jsDiv (Math_round (jsMul (jsMul 125 (jsDiv (discountPercent p) 100)) 100)) 100)
         (maxDiscount p), Some (code p))"
    using assms(5-9) by (intro promoDiscount_percent_capped) simp_all
  then have di: "fst (promoDiscount (now env) 125 (Some c) (promoCodes d)) = 25 / 2"
    by (simp only: assms(8) assms(9) dv fst_conv)
  have sd: "studentDiscountAmount None (r_studentDiscount r) = 0"
    by (simp add: studentDiscountAmount_def)
  have fees: "fees b = 3"
    unfolding b pricedBooking_fields(2) assms(3) by (rule fe)
  have disc: "discount b = 25 / 2"
    unfolding b pricedBooking_fields(3) assms(3) assms(4) by (rule di)
  have stud: "studentDiscount b = 0"
    unfolding b pricedBooking_fields(4) assms(10) by (rule sd)
  have "total b = max 0 (jsSub (jsSub (jsAdd 125 3) (25 / 2)) 0)"
    unfolding b pricedBooking_fields(5) assms(3) assms(4) assms(10) fe di sd ..
  then have tot: "total b = 231 / 2" by (simp only: su)
  from rd fees disc stud tot show ?thesis by (intro conjI)
qed

theorem createBooking_welcome10_witness:
  "fees scenarioBooking = 3 \<and> discount scenarioBooking = 25 / 2 \<and>
   studentDiscount scenarioBooking = 0 \<and> total scenarioBooking = 231 / 2"
proof -
  have r: "findRoute (req_from scenarioRequest) (req_to scenarioRequest) (routes scenarioDb)
      = Some scenarioRoute" by code_simp
  have p: "basePrice scenarioRoute = 125" by code_simp
  have c: "req_promoCode scenarioRequest = Some ''welcome10''" by code_simp
  have ne: "''welcome10'' \<noteq> []" by simp
  have f: "findPromo (now scenarioEnv) ''welcome10'' (promoCodes scenarioDb) = Some welcome10"
    by code_simp
  have u: "usageLimit welcome10 = 0 \<or> usageCount welcome10 < usageLimit welcome10" by code_simp
  have dp: "discountPercent welcome10 = 10" by code_simp
  have md: "maxDiscount welcome10 = 20" by code_simp
  have sd: "req_studentDiscount scenarioRequest = None" by code_simp
  show ?thesis
    using createBooking_welcome10 [OF scenario_created r p c ne f u dp md sd] by blast
qed

text \<open>
  C8 as it is stated fails on that input: the booking saved has the fee 3, not 1.88, and
  the total 115.5, not 114.38.
\<close>

theorem createBooking_welcome10_counterexample:
  "createBooking scenarioEnv scenarioRequest scenarioDb =
     Inr (scenarioBooking, scenarioDb\<lparr>bookings := bookings scenarioDb @ [scenarioBooking]\<rparr>) \<and>
   fees scenarioBooking \<noteq> 188 / 100 \<and> total scenarioBooking \<noteq> 11438 / 100"
proof -
  have "createBooking scenarioEnv scenarioRequest scenarioDb =
     Inr (scenarioBooking, scenarioDb\<lparr>bookings := bookings scenarioDb @ [scenarioBooking]\<rparr>)"
    by code_simp
  moreover have "fees scenarioBooking \<noteq> 188 / 100" by code_simp
  moreover have "total scenarioBooking \<noteq> 11438 / 100" by code_simp
  ultimately show ?thesis by (intro conjI)
qed

subsection \<open>Collections\<close>

lemma find_updateOne_const:
  "find P xs = Some x \<Longrightarrow> P y \<Longrightarrow> find P (updateOne P (\<lambda>_. y) xs) = Some y"
  by (induction xs) (auto split: if_splits)

lemma find_updateOne_preserving:
  "(\<And>x. P (f x) = P x) \<Longrightarrow> find P (updateOne P f xs) = map_option f (find P xs)"
  by (induction xs) auto

lemma find_Some_holds: "find P xs = Some x \<Longrightarrow> P x"
  by (induction xs) (auto split: if_splits)

lemma find_None_filter: "find P xs = None \<Longrightarrow> filter P xs = []"
  by (induction xs) (auto split: if_splits)

lemma find_Some_filter: "find P xs = Some x \<Longrightarrow> filter P xs \<noteq> []"
  by (induction xs) (auto split: if_splits)

subsection \<open>Payment confirmation\<close>

lemma settleBooking_fields:
  "bookingId (settleBooking intent b) = bookingId b"
  "status (settleBooking intent b) = Paid"
  "promoCode (settleBooking intent b) = promoCode b"
  by (simp_all add: settleBooking_def Let_def)

lemma saveBooking_fields:
  "promoCodes (saveBooking b d) = promoCodes d"
  "tickets (saveBooking b d) = tickets d"
  by (simp_all add: saveBooking_def)

lemma findBooking_saveBooking:
  assumes "findBooking bid (bookings d) = Some b0" and "bookingId b = bid"
  shows "findBooking bid (bookings (saveBooking b d)) = Some b"
  using assms by (simp add: findBooking_def saveBooking_def find_updateOne_const)

lemma incrementPromoUsage_fields:
  "bookings (incrementPromoUsage b d) = bookings d"
  "tickets (incrementPromoUsage b d) = tickets d"
  by (simp_all add: incrementPromoUsage_def split: option.splits)

lemma promoUsage_increment:
  assumes "promoCode b = Some c" and "c \<noteq> []"
  shows "promoUsage c (incrementPromoUsage b d) = map_option (\<lambda>n. n + 1) (promoUsage c d)"
  using assms
  by (simp add: promoUsage_def incrementPromoUsage_def find_updateOne_preserving
      option.map_comp comp_def)

lemma issueTicket_fields:
  "bookings (snd (issueTicket env b d)) = bookings d"
  "promoCodes (snd (issueTicket env b d)) = promoCodes d"
  by (simp_all add: issueTicket_def Let_def split: option.splits)

lemma issueTicket_tickets:
  "length (ticketsFor (bookingId b) (snd (issueTicket env b d)))
     \<le> max 1 (length (ticketsFor (bookingId b) d))"
proof (cases "findTicketByBooking (bookingId b) (tickets d)")
  case None
  then have "ticketsFor (bookingId b) d = []"
    by (simp add: ticketsFor_def findTicketByBooking_def find_None_filter)
  then show ?thesis
    using None by (auto simp: issueTicket_def Let_def ticketsFor_def)
next
  case (Some t)
  then show ?thesis by (simp add: issueTicket_def)
qed

lemma issueTicket_first_ticket:
  assumes "ticketsFor (bookingId b) d = []"
    and "fst (issueTicket env b d) \<noteq> Some DuplicateTicketKey"
  shows "length (ticketsFor (bookingId b) (snd (issueTicket env b d))) = 1"
proof -
  have "findTicketByBooking (bookingId b) (tickets d) = None"
  proof (cases "findTicketByBooking (bookingId b) (tickets d)")
    case (Some t)
    then show ?thesis
      using assms(1) find_Some_filter [of "\<lambda>t. t_bookingId t = bookingId b" "tickets d" t]
      by (simp add: ticketsFor_def findTicketByBooking_def)
  qed simp
  then show ?thesis
    using assms by (auto simp: issueTicket_def Let_def ticketsFor_def split: if_splits)
qed

lemma handlePaymentSuccess_paid:
  assumes "metadata_bookingId intent = Some bid" and "bid \<noteq> []"
    and "findBooking bid (bookings d) = Some b0" and "status b0 = Paid"
  shows "handlePaymentSuccess env intent d = (None, d)"
  using assms by (simp add: handlePaymentSuccess_def)

lemma handlePaymentSuccess_unpaid:
  assumes "metadata_bookingId intent = Some bid" and "bid \<noteq> []"
    and "findBooking bid (bookings d) = Some b0" and "status b0 \<noteq> Paid"
  shows "handlePaymentSuccess env intent d =
    issueTicket env (settleBooking intent b0)
      (incrementPromoUsage (settleBooking intent b0) (saveBooking (settleBooking intent b0) d))"
  using assms by (simp add: handlePaymentSuccess_def Let_def)

lemma handlePaymentSuccess_leaves_paid:
  assumes "metadata_bookingId intent = Some bid" and "bid \<noteq> []"
    and "findBooking bid (bookings d) = Some b0"
  shows "\<exists>b. findBooking bid (bookings (snd (handlePaymentSuccess env intent d))) = Some b \<and>
             status b = Paid"
proof (cases "status b0 = Paid")
  case True
  then show ?thesis using assms by (simp add: handlePaymentSuccess_paid)
next
  case False
  have "bookingId b0 = bid"
    using assms(3) find_Some_holds [of "\<lambda>x. bookingId x = bid"] by (simp add: findBooking_def)
  then have "findBooking bid (bookings (saveBooking (settleBooking intent b0) d))
      = Some (settleBooking intent b0)"
    using assms(3) by (intro findBooking_saveBooking) (simp_all add: settleBooking_fields)
  then show ?thesis
    using assms False
    by (simp add: handlePaymentSuccess_unpaid issueTicket_fields incrementPromoUsage_fields
        settleBooking_fields)
qed

text \<open>
  C1. When the booking of a payment-success event exists: if it is already paid the
  handler returns and changes nothing; and whatever its status was at the first
  delivery, a second delivery of the event returns and changes nothing, so that after
  both the booking is paid, it has no ticket more than after the first (at most one if
  it had none before, exactly one if it had none and the ticket was saved), and the usage
  count of its promo code has gone up by exactly one if the first delivery found the
  booking not yet paid.
\<close>

theorem handlePaymentSuccess_idempotent:
  assumes "metadata_bookingId intent = Some bid" and "bid \<noteq> []"
    and "findBooking bid (bookings d) = Some b0"
  shows "(status b0 = Paid \<longrightarrow> handlePaymentSuccess env intent d = (None, d)) \<and>
    (let d1 = snd (handlePaymentSuccess env intent d);
         d2 = snd (handlePaymentSuccess env' intent d1)
     in handlePaymentSuccess env' intent d1 = (None, d1) \<and>
        map_option status (findBooking bid (bookings d2)) = Some Paid \<and>
        ticketsFor bid d2 = ticketsFor bid d1 \<and>
        length (ticketsFor bid d2) \<le> max 1 (length (ticketsFor bid d)) \<and>
        (status b0 \<noteq> Paid \<and> ticketsFor bid d = [] \<and>
         fst (handlePaymentSuccess env intent d) \<noteq> Some DuplicateTicketKey \<longrightarrow>
           length (ticketsFor bid d2) = 1) \<and>
        (status b0 \<noteq> Paid \<and> promoCode b0 = Some c \<and> c \<noteq> [] \<longrightarrow>
           promoUsage c d2 = map_option (\<lambda>n. n + 1) (promoUsage c d)))"
proof -
  define d1 where "d1 = snd (handlePaymentSuccess env intent d)"
  from handlePaymentSuccess_leaves_paid [OF assms, of env] obtain b where
    b: "findBooking bid (bookings d1) = Some b" "status b = Paid"
    unfolding d1_def by blast
  have again: "handlePaymentSuccess env' intent d1 = (None, d1)"
    using assms(1,2) b by (rule handlePaymentSuccess_paid)
  have bid: "bookingId b0 = bid"
    using assms(3) find_Some_holds [of "\<lambda>x. bookingId x = bid"] by (simp add: findBooking_def)
  have tickets: "length (ticketsFor bid d1) \<le> max 1 (length (ticketsFor bid d))"
  proof (cases "status b0 = Paid")
    case True
    then show ?thesis using assms by (simp add: d1_def handlePaymentSuccess_paid)
  next
    case False
    have "length (ticketsFor (bookingId (settleBooking intent b0))
              (snd (issueTicket env (settleBooking intent b0)
                 (incrementPromoUsage (settleBooking intent b0)
                    (saveBooking (settleBooking intent b0) d)))))
          \<le> max 1 (length (ticketsFor (bookingId (settleBooking intent b0))
                 (incrementPromoUsage (settleBooking intent b0)
                    (saveBooking (settleBooking intent b0) d))))"
      by (rule issueTicket_tickets)
    then show ?thesis
      using assms False bid
      by (simp add: d1_def handlePaymentSuccess_unpaid settleBooking_fields ticketsFor_def
          incrementPromoUsage_fields saveBooking_fields)
  qed
  have one: "length (ticketsFor bid d1) = 1"
    if "status b0 \<noteq> Paid" "ticketsFor bid d = []"
      "fst (handlePaymentSuccess env intent d) \<noteq> Some DuplicateTicketKey"
  proof -
    let ?b = "settleBooking intent b0"
    let ?d = "incrementPromoUsage ?b (saveBooking ?b d)"
    have "ticketsFor (bookingId ?b) ?d = []"
      using that(2) bid
      by (simp add: ticketsFor_def settleBooking_fields incrementPromoUsage_fields saveBooking_fields)
    moreover have "fst (issueTicket env ?b ?d) \<noteq> Some DuplicateTicketKey"
      using that(1,3) assms by (simp add: handlePaymentSuccess_unpaid)
    ultimately have "length (ticketsFor (bookingId ?b) (snd (issueTicket env ?b ?d))) = 1"
      by (rule issueTicket_first_ticket)
    then show ?thesis
      using that(1) assms bid by (simp add: d1_def handlePaymentSuccess_unpaid settleBooking_fields)
  qed
  have usage: "promoUsage c d1 = map_option (\<lambda>n. n + 1) (promoUsage c d)"
    if "status b0 \<noteq> Paid" "promoCode b0 = Some c" "c \<noteq> []"
  proof -
    let ?b = "settleBooking intent b0"
    have "promoUsage c (incrementPromoUsage ?b (saveBooking ?b d))
        = map_option (\<lambda>n. n + 1) (promoUsage c (saveBooking ?b d))"
      using that(2,3) by (intro promoUsage_increment) (simp_all add: settleBooking_fields)
    then show ?thesis
      using that(1) assms
      by (simp add: d1_def handlePaymentSuccess_unpaid promoUsage_def issueTicket_fields
          saveBooking_fields)
  qed
  show ?thesis
    using assms again b tickets one usage
    by (simp add: Let_def d1_def [symmetric] handlePaymentSuccess_paid)
qed

theorem handlePaymentSuccess_idempotent_witness:
  "handlePaymentSuccess redeliveryEnv scenarioIntent paidDb = (None, paidDb) \<and>
   handlePaymentSuccess redeliveryEnv scenarioIntent
       (snd (handlePaymentSuccess scenarioWebhookEnv scenarioIntent pendingDb))
     = (None, snd (handlePaymentSuccess scenarioWebhookEnv scenarioIntent pendingDb)) \<and>
   length (ticketsFor ''BK-1B9D6BCD''
       (snd (handlePaymentSuccess redeliveryEnv scenarioIntent
          (snd (handlePaymentSuccess scenarioWebhookEnv scenarioIntent pendingDb))))) = 1 \<and>
   promoUsage ''WELCOME10''
       (snd (handlePaymentSuccess redeliveryEnv scenarioIntent
          (snd (handlePaymentSuccess scenarioWebhookEnv scenarioIntent pendingDb))))
     = map_option (\<lambda>n. n + 1) (promoUsage ''WELCOME10'' pendingDb)"
proof -
  have m: "metadata_bookingId scenarioIntent = Some ''BK-1B9D6BCD''" by code_simp
  have n: "''BK-1B9D6BCD'' \<noteq> []" by simp
  have f1: "findBooking ''BK-1B9D6BCD'' (bookings paidDb) = Some paidBooking" by code_simp
  have s1: "status paidBooking = Paid" by code_simp
  have w1: "handlePaymentSuccess redeliveryEnv scenarioIntent paidDb = (None, paidDb)"
    using handlePaymentSuccess_idempotent [OF m n f1, of redeliveryEnv redeliveryEnv "[]"] s1
    by blast
  have f2: "findBooking ''BK-1B9D6BCD'' (bookings pendingDb) = Some scenarioBooking" by code_simp
  have s2: "status scenarioBooking \<noteq> Paid" by code_simp
  have p2: "promoCode scenarioBooking = Some ''WELCOME10'' \<and> ''WELCOME10'' \<noteq> []" by code_simp
  have t2: "ticketsFor ''BK-1B9D6BCD'' pendingDb = []" by code_simp
  have e2: "fst (handlePaymentSuccess scenarioWebhookEnv scenarioIntent pendingDb)
      \<noteq> Some DuplicateTicketKey" by code_simp
  note th = handlePaymentSuccess_idempotent
    [OF m n f2, of scenarioWebhookEnv redeliveryEnv "''WELCOME10''", unfolded Let_def]
  from th s2 p2 t2 e2 w1 show ?thesis by blast
qed

text \<open>
  C2 fails on a paid booking: the payment-failed event of the example cancels the booking
  that was paid.
\<close>

theorem handlePaymentFailed_cancels_paid:
  "findBooking ''BK-1B9D6BCD'' (bookings paidDb) = Some paidBooking \<and>
   status paidBooking = Paid \<and>
   handlePaymentFailed scenarioIntent paidDb =
     (None, paidDb\<lparr>bookings := [paidBooking\<lparr>status := Cancelled\<rparr>]\<rparr>)"
proof -
  have "findBooking ''BK-1B9D6BCD'' (bookings paidDb) = Some paidBooking" by code_simp
  moreover have "status paidBooking = Paid" by code_simp
  moreover have "handlePaymentFailed scenarioIntent paidDb =
     (None, paidDb\<lparr>bookings := [paidBooking\<lparr>status := Cancelled\<rparr>]\<rparr>)" by code_simp
  ultimately show ?thesis by (intro conjI)
qed

text \<open>
  C4 fails on a paid booking: the payment sheet request of the example is rejected as
  already processed, and the total stored with the booking has gone from 115.5 to the 50
  of the request.
\<close>

theorem createPaymentSheet_rejected_overwrites_total:
  "findBooking ''BK-1B9D6BCD'' (bookings paidDb) = Some paidBooking \<and>
   status paidBooking = Paid \<and> total paidBooking = 231 / 2 \<and>
   createPaymentSheet scenarioStripe sheetRequest paidDb =
     (PS_BookingAlreadyProcessed Paid, paidDb\<lparr>bookings := [paidBooking\<lparr>total := 50\<rparr>]\<rparr>)"
proof -
  have "findBooking ''BK-1B9D6BCD'' (bookings paidDb) = Some paidBooking" by code_simp
  moreover have "status paidBooking = Paid" by code_simp
  moreover have "total paidBooking = 231 / 2" by code_simp
  moreover have "createPaymentSheet scenarioStripe sheetRequest paidDb =
     (PS_BookingAlreadyProcessed Paid, paidDb\<lparr>bookings := [paidBooking\<lparr>total := 50\<rparr>]\<rparr>)"
    by code_simp
  ultimately show ?thesis by (intro conjI)
qed

subsection \<open>Ticket redemption\<close>

lemma useTicket_unused:
  assumes "tk_fieldErrors req = []"
    and "findTicketByToken (tk_qrToken req) (tickets d) = Some t" and "\<not> isUsed t"
  shows "fst (useTicket now' req d) = U_MarkedAsUsed (ticketId t) (Some now')"
    and "findTicketByToken (tk_qrToken req) (tickets (snd (useTicket now' req d)))
           = Some (t\<lparr>isUsed := True, usedAt := Some now'\<rparr>)"
    and "bookings (snd (useTicket now' req d)) = bookings d"
proof -
  have "qrToken t = tk_qrToken req"
    using assms(2) find_Some_holds [of "\<lambda>t. qrToken t = tk_qrToken req"]
    by (simp add: findTicketByToken_def)
  then have "find (\<lambda>x. qrToken x = tk_qrToken req)
      (updateOne (\<lambda>x. qrToken x = tk_qrToken req) (\<lambda>_. t\<lparr>isUsed := True, usedAt := Some now'\<rparr>) (tickets d))
      = Some (t\<lparr>isUsed := True, usedAt := Some now'\<rparr>)"
    using assms(2) by (intro find_updateOne_const [of _ _ t]) (simp_all add: findTicketByToken_def)
  then show "findTicketByToken (tk_qrToken req) (tickets (snd (useTicket now' req d)))
           = Some (t\<lparr>isUsed := True, usedAt := Some now'\<rparr>)"
    using assms by (simp add: useTicket_def findTicketByToken_def)
  show "fst (useTicket now' req d) = U_MarkedAsUsed (ticketId t) (Some now')"
    using assms by (simp add: useTicket_def)
  show "bookings (snd (useTicket now' req d)) = bookings d"
    using assms by (simp add: useTicket_def)
qed

lemma useTicket_used:
  assumes "tk_fieldErrors req = []"
    and "findTicketByToken (tk_qrToken req) (tickets d) = Some t" and "isUsed t"
  shows "useTicket now' req d = (U_TicketAlreadyUsed (usedAt t), d)"
  using assms by (simp add: useTicket_def)

lemma useTicket_missing:
  assumes "tk_fieldErrors req = []" and "findTicketByToken (tk_qrToken req) (tickets d) = None"
  shows "useTicket now' req d = (U_TicketNotFound, d)"
  using assms by (simp add: useTicket_def)

text \<open>
  C9 as amended. For a request that passes validation, \<open>useTicket\<close> answers
  \<open>Ticket not found\<close> when no ticket has the token and \<open>Ticket already used\<close>, with
  the stored \<open>usedAt\<close>, when the ticket is used, and changes nothing in both cases;
  otherwise it marks the ticket as used at the current time. A second call on the same
  token then answers \<open>Ticket already used\<close> with the time of the first, and
  \<open>validateQRCode\<close> answers \<open>alreadyUsed\<close> with that time provided the booking of
  the ticket is paid.
\<close>

theorem useTicket_latch:
  assumes "tk_fieldErrors req = []"
  shows
   "(findTicketByToken (tk_qrToken req) (tickets d) = None \<longrightarrow>
       useTicket now' req d = (U_TicketNotFound, d)) \<and>
    (findTicketByToken (tk_qrToken req) (tickets d) = Some t \<and> isUsed t \<longrightarrow>
       useTicket now' req d = (U_TicketAlreadyUsed (usedAt t), d)) \<and>
    (findTicketByToken (tk_qrToken req) (tickets d) = Some t \<and> \<not> isUsed t \<longrightarrow>
       (let d1 = snd (useTicket now' req d)
        in fst (useTicket now' req d) = U_MarkedAsUsed (ticketId t) (Some now') \<and>
           findTicketByToken (tk_qrToken req) (tickets d1)
             = Some (t\<lparr>isUsed := True, usedAt := Some now'\<rparr>) \<and>
           useTicket later req d1 = (U_TicketAlreadyUsed (Some now'), d1) \<and>
           (map_option status (findBooking (t_bookingId t) (bookings d)) = Some Paid \<longrightarrow>
              validateQRCode today req d1 = V_AlreadyUsed (Some now') (ticketId t))))"
proof -
  have "useTicket later req (snd (useTicket now' req d))
          = (U_TicketAlreadyUsed (Some now'), snd (useTicket now' req d)) \<and>
        (map_option status (findBooking (t_bookingId t) (bookings d)) = Some Paid \<longrightarrow>
           validateQRCode today req (snd (useTicket now' req d))
             = V_AlreadyUsed (Some now') (ticketId t))"
    if t: "findTicketByToken (tk_qrToken req) (tickets d) = Some t" "\<not> isUsed t"
  proof -
    note u = useTicket_unused [OF assms t, of now']
    have "useTicket later req (snd (useTicket now' req d))
          = (U_TicketAlreadyUsed (usedAt (t\<lparr>isUsed := True, usedAt := Some now'\<rparr>)),
             snd (useTicket now' req d))"
      using assms u(2) by (intro useTicket_used) simp_all
    then show ?thesis
      using assms u(2,3) by (auto simp: validateQRCode_def split: option.splits)
  qed
  then show ?thesis
    using useTicket_missing [OF assms, of d now'] useTicket_used [OF assms, of d t now']
      useTicket_unused [OF assms, of d t now']
    by (simp add: Let_def)
qed

theorem useTicket_latch_witness:
  "useTicket 1735100000000 unknownRequest paidDb = (U_TicketNotFound, paidDb) \<and>
   fst (useTicket 1735100000000 gateRequest paidDb)
     = U_MarkedAsUsed (ticketId scenarioTicket) (Some 1735100000000) \<and>
   useTicket 1735200000000 gateRequest (snd (useTicket 1735100000000 gateRequest paidDb))
     = (U_TicketAlreadyUsed (Some 1735100000000), snd (useTicket 1735100000000 gateRequest paidDb)) \<and>
   validateQRCode 1735077600000 gateRequest (snd (useTicket 1735100000000 gateRequest paidDb))
     = V_AlreadyUsed (Some 1735100000000) (ticketId scenarioTicket)"
proof -
  have v0: "tk_fieldErrors unknownRequest = []" by code_simp
  have f0: "findTicketByToken (tk_qrToken unknownRequest) (tickets paidDb) = None" by code_simp
  have w0: "useTicket 1735100000000 unknownRequest paidDb = (U_TicketNotFound, paidDb)"
    using useTicket_latch [OF v0, of paidDb 1735100000000 scenarioTicket 0 0] f0 by blast
  have v: "tk_fieldErrors gateRequest = []" by code_simp
  have f: "findTicketByToken (tk_qrToken gateRequest) (tickets paidDb) = Some scenarioTicket"
    by code_simp
  have u: "\<not> isUsed scenarioTicket" by code_simp
  have p: "map_option status (findBooking (t_bookingId scenarioTicket) (bookings paidDb)) = Some Paid"
    by code_simp
  note th = useTicket_latch
    [OF v, of paidDb 1735100000000 scenarioTicket 1735200000000 1735077600000, unfolded Let_def]
  from th f u p w0 show ?thesis by blast
qed

text \<open>
  C9 as it is stated fails when the booking of the ticket is not paid: in the example
  the first call marks the ticket as used, and \<open>validateQRCode\<close> then answers
  \<open>Booking not confirmed\<close>, not \<open>alreadyUsed\<close>.
\<close>

theorem useTicket_latch_counterexample:
  "fst (useTicket 1735100000000 gateRequest refundedDb)
     = U_MarkedAsUsed ''TK-7C9E6679'' (Some 1735100000000) \<and>
   validateQRCode 1735077600000 gateRequest (snd (useTicket 1735100000000 gateRequest refundedDb))
     = V_BookingNotConfirmed \<and>
   validateQRCode 1735077600000 gateRequest (snd (useTicket 1735100000000 gateRequest refundedDb))
     \<noteq> V_AlreadyUsed (Some 1735100000000) ''TK-7C9E6679''"
proof -
  have "fst (useTicket 1735100000000 gateRequest refundedDb)
     = U_MarkedAsUsed ''TK-7C9E6679'' (Some 1735100000000)" by code_simp
  moreover have "validateQRCode 1735077600000 gateRequest
      (snd (useTicket 1735100000000 gateRequest refundedDb)) = V_BookingNotConfirmed"
    by code_simp
  ultimately show ?thesis by simp
qed

text \<open>
  C10. \<open>useTicket\<close> does not look at the booking. For a request that passes validation
  and an unused ticket whose booking is missing or not paid, it marks the ticket as used,
  while \<open>validateQRCode\<close> answers \<open>Booking not confirmed\<close> for the same token, before
  and after. It answers \<open>Ticket not found\<close> exactly when no ticket has the token,
  \<open>Ticket already used\<close> exactly when the ticket is used, and succeeds in every other
  case.
\<close>

theorem useTicket_ignores_booking:
  assumes "tk_fieldErrors req = []"
  shows
   "(findTicketByToken (tk_qrToken req) (tickets d) = Some t \<and> \<not> isUsed t \<and>
     map_option status (findBooking (t_bookingId t) (bookings d)) \<noteq> Some Paid \<longrightarrow>
       fst (useTicket now' req d) = U_MarkedAsUsed (ticketId t) (Some now') \<and>
       findTicketByToken (tk_qrToken req) (tickets (snd (useTicket now' req d)))
         = Some (t\<lparr>isUsed := True, usedAt := Some now'\<rparr>) \<and>
       validateQRCode today req d = V_BookingNotConfirmed \<and>
       validateQRCode today req (snd (useTicket now' req d)) = V_BookingNotConfirmed) \<and>
    ((fst (useTicket now' req d) = U_TicketNotFound) =
       (findTicketByToken (tk_qrToken req) (tickets d) = None)) \<and>
    ((\<exists>u. fst (useTicket now' req d) = U_TicketAlreadyUsed u) =
       (\<exists>x. findTicketByToken (tk_qrToken req) (tickets d) = Some x \<and> isUsed x)) \<and>
    ((\<exists>i u. fst (useTicket now' req d) = U_MarkedAsUsed i u) =
       (\<exists>x. findTicketByToken (tk_qrToken req) (tickets d) = Some x \<and> \<not> isUsed x))"
proof -
  have first: "fst (useTicket now' req d) = U_MarkedAsUsed (ticketId t) (Some now') \<and>
       findTicketByToken (tk_qrToken req) (tickets (snd (useTicket now' req d)))
         = Some (t\<lparr>isUsed := True, usedAt := Some now'\<rparr>) \<and>
       validateQRCode today req d = V_BookingNotConfirmed \<and>
       validateQRCode today req (snd (useTicket now' req d)) = V_BookingNotConfirmed"
    if t: "findTicketByToken (tk_qrToken req) (tickets d) = Some t" "\<not> isUsed t"
      and b: "map_option status (findBooking (t_bookingId t) (bookings d)) \<noteq> Some Paid"
  proof -
    note u = useTicket_unused [OF assms t, of now']
    have "validateQRCode today req d = V_BookingNotConfirmed"
      using assms t b by (auto simp: validateQRCode_def split: option.splits)
    moreover have "validateQRCode today req (snd (useTicket now' req d)) = V_BookingNotConfirmed"
      using assms u(2,3) b by (auto simp: validateQRCode_def split: option.splits)
    ultimately show ?thesis using u(1,2) by simp
  qed
  have rest: "((fst (useTicket now' req d) = U_TicketNotFound) =
       (findTicketByToken (tk_qrToken req) (tickets d) = None)) \<and>
    ((\<exists>u. fst (useTicket now' req d) = U_TicketAlreadyUsed u) =
       (\<exists>x. findTicketByToken (tk_qrToken req) (tickets d) = Some x \<and> isUsed x)) \<and>
    ((\<exists>i u. fst (useTicket now' req d) = U_MarkedAsUsed i u) =
       (\<exists>x. findTicketByToken (tk_qrToken req) (tickets d) = Some x \<and> \<not> isUsed x))"
    using assms by (auto simp: useTicket_def split: option.splits)
  from first rest show ?thesis by blast
qed

theorem useTicket_ignores_booking_witness:
  "fst (useTicket 1735100000000 gateRequest refundedDb)
     = U_MarkedAsUsed (ticketId scenarioTicket) (Some 1735100000000) \<and>
   findTicketByToken (tk_qrToken gateRequest)
       (tickets (snd (useTicket 1735100000000 gateRequest refundedDb)))
     = Some (scenarioTicket\<lparr>isUsed := True, usedAt := Some 1735100000000\<rparr>) \<and>
   validateQRCode 1735077600000 gateRequest refundedDb = V_BookingNotConfirmed"
proof -
  have v: "tk_fieldErrors gateRequest = []" by code_simp
  have f: "findTicketByToken (tk_qrToken gateRequest) (tickets refundedDb) = Some scenarioTicket"
    by code_simp
  have u: "\<not> isUsed scenarioTicket" by code_simp
  have p: "map_option status (findBooking (t_bookingId scenarioTicket) (bookings refundedDb))
      \<noteq> Some Paid" by code_simp
  from useTicket_ignores_booking [OF v, of refundedDb scenarioTicket 1735100000000 1735077600000]
    f u p show ?thesis by blast
qed

end
